theory Spec2Isabelle
  imports Main "HOL-Library.Char_ord" "HOL-Library.List_Lexorder"
begin

section \<open>Data model (module3\_planning/planning\_domain.py, graphplan.py)\<close>

text \<open>
  A proposition is a Python \<open>str\<close>. An \<open>Action\<close> is the dataclass of
  planning\_domain.py; its three proposition collections are Python sets, modelled as HOL sets.
\<close>

type_synonym Proposition = string

record Action =
  name :: string
  preconditions :: "Proposition set"
  add_effects :: "Proposition set"
  del_effects :: "Proposition set"

record PlanGraph =
  proposition_layers :: "Proposition set list"
  action_layers :: "Action list list"

text \<open>
  Every \<open>raise\<close> of the planning module is a \<open>ValueError\<close>; the constructors keep the
  three messages apart. \<open>NotFound\<close> is "Object with id ... not found" (\<open>_find_by_id\<close>),
  \<open>PlanNotFound\<close> is "Goals not reachable within max\_levels in planning graph."
  (\<open>build_plan_graph\<close>), \<open>DomainActionNotFound\<close> is "Domain action with prefix ... not
  found" (\<open>find_da\<close> of pop\_planner.py). \<open>IndexError\<close> is what Python raises when a list
  is read out of range.
\<close>

datatype error = NotFound string | PlanNotFound | DomainActionNotFound string | IndexError

text \<open>
  The order in which Python walks a set is not fixed by the language. Every function that has
  a \<open>for\<close> loop over a set takes the iteration order as a parameter \<open>iter\<close>; an order is
  admissible when it lists exactly the members of every finite set.
\<close>

type_synonym set_order = "Proposition set \<Rightarrow> Proposition list"

definition valid_iter :: "set_order \<Rightarrow> bool" where
  "valid_iter iter = (\<forall>S. finite S \<longrightarrow> set (iter S) = S)"

section \<open>Planning-graph builder (graphplan.py, build\_plan\_graph)\<close>

text \<open>Lines 44-46: \<open>next_props = set(current_props)\<close>, then \<open>|=\<close> each add-effect set.\<close>

fun add_all_effects :: "Action list \<Rightarrow> Proposition set \<Rightarrow> Proposition set" where
  "add_all_effects [] next_props = next_props"
| "add_all_effects (act # acts) next_props = add_all_effects acts (next_props \<union> add_effects act)"

text \<open>
  The body of \<open>for level in range(max_levels)\<close>. The first argument counts the iterations
  that remain, \<open>level\<close> is the loop variable. The result is the loop's state when it is left,
  with \<open>Some (level + 1)\<close> for the \<open>return\<close> inside the loop and \<open>None\<close> when the range is
  exhausted (the \<open>raise\<close> after the loop).
\<close>

fun build_loop :: "Action list \<Rightarrow> Proposition set \<Rightarrow> nat \<Rightarrow> int \<Rightarrow> PlanGraph \<Rightarrow> PlanGraph \<times> int option" where
  "build_loop actions goals 0 level pg = (pg, None)"
| "build_loop actions goals (Suc n) level pg =
     (let current_props = last (proposition_layers pg);
          applicable_actions = filter (\<lambda>action. preconditions action \<subseteq> current_props) actions;
          als = action_layers pg @ [applicable_actions];
          next_props = add_all_effects applicable_actions current_props;
          pls = proposition_layers pg @ [next_props];
          pg' = \<lparr>proposition_layers = pls, action_layers = als\<rparr>
      in if goals \<subseteq> next_props then (pg', Some (level + 1))
         else build_loop actions goals n (level + 1) pg')"

definition build_plan_graph ::
  "Proposition set \<Rightarrow> Action list \<Rightarrow> Proposition set \<Rightarrow> int \<Rightarrow> error + (PlanGraph \<times> int)" where
  "build_plan_graph initial_state actions goals max_levels =
     (case build_loop actions goals (nat max_levels) 0
             \<lparr>proposition_layers = [initial_state], action_layers = []\<rparr> of
        (pg, Some idx) \<Rightarrow> Inr (pg, idx)
      | (pg, None) \<Rightarrow> Inl PlanNotFound)"

text \<open>
  The layers as the specification writes them: \<open>P0 = InitialState\<close>,
  \<open>Ai\<close> the input actions applicable in \<open>Pi\<close>, \<open>P(i+1) = Pi \<union> add-effects of Ai\<close>.
\<close>

definition applicable :: "Action list \<Rightarrow> Proposition set \<Rightarrow> Action list" where
  "applicable actions props = filter (\<lambda>a. preconditions a \<subseteq> props) actions"

definition expand :: "Action list \<Rightarrow> Proposition set \<Rightarrow> Proposition set" where
  "expand actions props = props \<union> \<Union> (add_effects ` set (applicable actions props))"

fun layer :: "Proposition set \<Rightarrow> Action list \<Rightarrow> nat \<Rightarrow> Proposition set" where
  "layer initial_state actions 0 = initial_state"
| "layer initial_state actions (Suc i) = expand actions (layer initial_state actions i)"

text \<open>The graph whose last proposition layer is \<open>P m\<close>: layers \<open>P0..Pm\<close> and \<open>A0..A(m-1)\<close>.\<close>

definition graph_upto :: "Proposition set \<Rightarrow> Action list \<Rightarrow> nat \<Rightarrow> PlanGraph" where
  "graph_upto initial_state actions m =
     \<lparr>proposition_layers = map (layer initial_state actions) [0..<Suc m],
      action_layers = map (\<lambda>i. applicable actions (layer initial_state actions i)) [0..<m]\<rparr>"

section \<open>Linear plan extractor (graphplan.py, extract\_linear\_plan)\<close>

text \<open>Lines 86-90: the first action of the layer whose add-effects contain the goal.\<close>

fun find_supporter :: "Action list \<Rightarrow> Proposition \<Rightarrow> Action option" where
  "find_supporter [] g = None"
| "find_supporter (a # actions_at_prev) g =
     (if g \<in> add_effects a then Some a else find_supporter actions_at_prev g)"

text \<open>
  Lines 81-97, \<open>for g in current_goals\<close>, over the goals in the order the set hands them
  out. The state is \<open>(chosen_actions, new_subgoals)\<close>; \<open>pls\<close> and \<open>i\<close> are
  \<open>proposition_layers\<close> and \<open>level - 1\<close>, read with \<open>proposition_layers[level - 1]\<close> once
  per goal, which raises when the index is out of range.
\<close>

fun goals_loop ::
  "Proposition set list \<Rightarrow> nat \<Rightarrow> Action list \<Rightarrow> Proposition list \<Rightarrow>
   Action list \<times> Proposition set \<Rightarrow> error + (Action list \<times> Proposition set)" where
  "goals_loop pls i actions_at_prev [] st = Inr st"
| "goals_loop pls i actions_at_prev (g # gs) (chosen_actions, new_subgoals) =
     (if length pls \<le> i then Inl IndexError
      else if g \<in> pls ! i then goals_loop pls i actions_at_prev gs (chosen_actions, new_subgoals)
      else (case find_supporter actions_at_prev g of
              None \<Rightarrow> goals_loop pls i actions_at_prev gs (chosen_actions, new_subgoals)
            | Some supporter \<Rightarrow>
                goals_loop pls i actions_at_prev gs
                  (chosen_actions @ [supporter], new_subgoals \<union> preconditions supporter)))"

text \<open>
  Lines 77-99, \<open>for level in range(goal_layer_index, 0, -1)\<close>: the first argument is
  \<open>level\<close>, the state is \<open>(chosen_actions, current_goals)\<close>.
\<close>

fun levels_loop ::
  "set_order \<Rightarrow> PlanGraph \<Rightarrow> nat \<Rightarrow> Action list \<times> Proposition set \<Rightarrow>
   error + (Action list \<times> Proposition set)" where
  "levels_loop iter pg 0 st = Inr st"
| "levels_loop iter pg (Suc l) (chosen_actions, current_goals) =
     (if length (action_layers pg) \<le> l then Inl IndexError
      else (case goals_loop (proposition_layers pg) l (action_layers pg ! l) (iter current_goals)
                   (chosen_actions, {}) of
              Inl e \<Rightarrow> Inl e
            | Inr (chosen_actions', new_subgoals) \<Rightarrow>
                levels_loop iter pg l (chosen_actions', current_goals \<union> new_subgoals)))"

text \<open>Lines 103-108: keep the first occurrence of every action name.\<close>

fun dedup_loop :: "Action list \<Rightarrow> string set \<Rightarrow> Action list \<Rightarrow> Action list" where
  "dedup_loop [] seen final_plan = final_plan"
| "dedup_loop (a # chosen_actions) seen final_plan =
     (if name a \<notin> seen then dedup_loop chosen_actions (insert (name a) seen) (final_plan @ [a])
      else dedup_loop chosen_actions seen final_plan)"

definition extract_linear_plan ::
  "set_order \<Rightarrow> PlanGraph \<Rightarrow> int \<Rightarrow> Proposition set \<Rightarrow> error + Action list" where
  "extract_linear_plan iter plan_graph goal_layer_index goals =
     (case levels_loop iter plan_graph (nat goal_layer_index) ([], goals) of
        Inl e \<Rightarrow> Inl e
      | Inr (chosen_actions, current_goals) \<Rightarrow> Inr (dedup_loop (rev chosen_actions) {} []))"

text \<open>
  Forward simulation of a plan as the specification describes it: add-effects are united into
  the accumulated state, delete effects are ignored.
\<close>

fun simulate :: "Proposition set \<Rightarrow> Action list \<Rightarrow> Proposition set" where
  "simulate S [] = S"
| "simulate S (a # plan) = simulate (S \<union> add_effects a) plan"

fun executable :: "Proposition set \<Rightarrow> Action list \<Rightarrow> bool" where
  "executable S [] = True"
| "executable S (a # plan) = (preconditions a \<subseteq> S \<and> executable (S \<union> add_effects a) plan)"

section \<open>Scenario (common/entities.py, common/constants.py, common/scenario.py)\<close>

text \<open>
  The fields of the entities that are strings, booleans, enums or integers; the planner reads
  \<open>id\<close>, \<open>node\<close>, \<open>current_node\<close> and \<open>ct_status\<close> only.
\<close>

datatype HospitalCTStatus = AVAILABLE | OFFLINE

record Hospital =
  hospital_id :: string
  hospital_name :: string
  node :: string
  is_trauma_center :: bool
  ct_status :: HospitalCTStatus
  capacity_beds :: int
  current_load :: int

record Ambulance =
  ambulance_id :: string
  current_node :: string
  is_available :: bool

record Accident =
  accident_id :: string
  location_node :: string
  description :: string
  caller_urgency :: string

record Scenario =
  hospitals :: "Hospital list"
  ambulances :: "Ambulance list"
  accidents :: "Accident list"

definition create_base_scenario :: Scenario where
  "create_base_scenario =
     \<lparr>hospitals =
        [\<lparr>hospital_id = ''H1'', hospital_name = ''H1 Trauma Hospital'', node = ''hospital_h1'',
          is_trauma_center = True, ct_status = AVAILABLE, capacity_beds = 40, current_load = 30\<rparr>,
         \<lparr>hospital_id = ''H2'', hospital_name = ''H2 General Hospital'', node = ''hospital_h2'',
          is_trauma_center = False, ct_status = OFFLINE, capacity_beds = 30, current_load = 20\<rparr>],
      ambulances =
        [\<lparr>ambulance_id = ''A1'', current_node = ''hospital_h1'', is_available = True\<rparr>,
         \<lparr>ambulance_id = ''A2'', current_node = ''hospital_h2'', is_available = True\<rparr>],
      accidents =
        [\<lparr>accident_id = ''ACC1'', location_node = ''jaydev_vihar_flyover'',
          description = ''High-speed bike collision near Jaydev Vihar flyover'',
          caller_urgency = ''panicked''\<rparr>,
         \<lparr>accident_id = ''ACC2'', location_node = ''rupali_square'',
          description = ''Car-auto crash at Rupali Square'', caller_urgency = ''tense''\<rparr>,
         \<lparr>accident_id = ''ACC3'', location_node = ''airport_approach'',
          description = ''SUV rollover near Airport approach road with airbags deployed'',
          caller_urgency = ''tense''\<rparr>]\<rparr>"

section \<open>Domain builder (planning\_domain.py)\<close>

text \<open>
  \<open>_find_by_id\<close>: \<open>getattr(o, "id", None) == obj_id\<close>. The first argument reads the \<open>id\<close>
  attribute of an object, \<open>None\<close> when the object has none.
\<close>

fun find_by_id :: "('a \<Rightarrow> string option) \<Rightarrow> 'a list \<Rightarrow> string \<Rightarrow> error + 'a" where
  "find_by_id get_id [] obj_id = Inl (NotFound obj_id)"
| "find_by_id get_id (ob # objects) obj_id =
     (if get_id ob = Some obj_id then Inr ob else find_by_id get_id objects obj_id)"

definition initial_state_of :: "Hospital \<Rightarrow> Hospital \<Rightarrow> Ambulance \<Rightarrow> Accident \<Rightarrow> Proposition set" where
  "initial_state_of h1 h2 a1 acc3 =
     {''AmbulanceFree('' @ ambulance_id a1 @ '')'',
      ''AmbulanceAt('' @ ambulance_id a1 @ '', '' @ current_node a1 @ '')'',
      ''AccidentReported('' @ accident_id acc3 @ '')'',
      ''AccidentHighRisk('' @ accident_id acc3 @ '')'',
      ''AccidentNotServed('' @ accident_id acc3 @ '')'',
      ''Hospital('' @ hospital_id h1 @ '')'',
      ''Hospital('' @ hospital_id h2 @ '')'',
      ''TraumaCenter('' @ hospital_id h1 @ '')'',
      ''CTAvailable('' @ hospital_id h1 @ '')'',
      (if ct_status h2 = OFFLINE then ''CTOffline('' @ hospital_id h2 @ '')''
       else ''CTAvailable('' @ hospital_id h2 @ '')''),
      ''RainyConditions'',
      ''StadiumTrafficLikely'',
      ''ControlRoomOperational''}"

definition hotspot_node :: string where
  "hotspot_node = ''nayapalli_chowk''"

definition actions_of :: "Hospital \<Rightarrow> Hospital \<Rightarrow> Ambulance \<Rightarrow> Accident \<Rightarrow> Action list" where
  "actions_of h1 h2 a1 acc3 =
     [\<lparr>name = ''TriggerDroneRecon('' @ accident_id acc3 @ '')'',
       preconditions = {''ControlRoomOperational'', ''AccidentReported('' @ accident_id acc3 @ '')''},
       add_effects = {''DroneReconDone('' @ accident_id acc3 @ '')'',
                      ''AccidentLocationConfirmed('' @ accident_id acc3 @ '')''},
       del_effects = {}\<rparr>,
      \<lparr>name = ''RequestTrafficDiversion(stadium_corridor)'',
       preconditions = {''ControlRoomOperational'', ''StadiumTrafficLikely''},
       add_effects = {''TrafficDiverted(stadium_corridor)''},
       del_effects = {}\<rparr>,
      \<lparr>name = ''PreDeployAmbulanceNearHotspot('' @ ambulance_id a1 @ '', '' @ hotspot_node @ '')'',
       preconditions = {''AmbulanceFree('' @ ambulance_id a1 @ '')'',
                        ''AmbulanceAt('' @ ambulance_id a1 @ '', '' @ current_node a1 @ '')''},
       add_effects = {''AmbulanceAt('' @ ambulance_id a1 @ '', '' @ hotspot_node @ '')'',
                      ''AmbulancePredeployed('' @ ambulance_id a1 @ '')''},
       del_effects = {''AmbulanceAt('' @ ambulance_id a1 @ '', '' @ current_node a1 @ '')''}\<rparr>,
      \<lparr>name = ''NotifyHospital('' @ hospital_id h1 @ '')'',
       preconditions = {''ControlRoomOperational'', ''AccidentHighRisk('' @ accident_id acc3 @ '')'',
                        ''Hospital('' @ hospital_id h1 @ '')''},
       add_effects = {''HospitalNotified('' @ hospital_id h1 @ '')''},
       del_effects = {}\<rparr>,
      \<lparr>name = ''StartTransportToAccident('' @ ambulance_id a1 @ '', '' @ accident_id acc3 @ '')'',
       preconditions = {''AmbulanceFree('' @ ambulance_id a1 @ '')'',
                        ''AmbulanceAt('' @ ambulance_id a1 @ '', '' @ hotspot_node @ '')'',
                        ''AccidentLocationConfirmed('' @ accident_id acc3 @ '')'',
                        ''TrafficDiverted(stadium_corridor)''},
       add_effects = {''AmbulanceEnRoute('' @ ambulance_id a1 @ '', '' @ accident_id acc3 @ '')'',
                      ''AmbulanceBusy('' @ ambulance_id a1 @ '')''},
       del_effects = {''AmbulanceFree('' @ ambulance_id a1 @ '')''}\<rparr>,
      \<lparr>name = ''DeliverPatientToH1('' @ ambulance_id a1 @ '', '' @ accident_id acc3 @ '', ''
                @ hospital_id h1 @ '')'',
       preconditions = {''AmbulanceEnRoute('' @ ambulance_id a1 @ '', '' @ accident_id acc3 @ '')'',
                        ''HospitalNotified('' @ hospital_id h1 @ '')''},
       add_effects = {''PatientAt('' @ accident_id acc3 @ '', '' @ hospital_id h1 @ '')'',
                      ''AccidentServed('' @ accident_id acc3 @ '')'',
                      ''AmbulanceFree('' @ ambulance_id a1 @ '')'',
                      ''AmbulanceAt('' @ ambulance_id a1 @ '', '' @ node h1 @ '')''},
       del_effects = {''AccidentNotServed('' @ accident_id acc3 @ '')'',
                      ''AmbulanceEnRoute('' @ ambulance_id a1 @ '', '' @ accident_id acc3 @ '')'',
                      ''AmbulanceBusy('' @ ambulance_id a1 @ '')''}\<rparr>,
      \<lparr>name = ''RerouteMidJourneyToH2('' @ ambulance_id a1 @ '', '' @ accident_id acc3 @ '', ''
                @ hospital_id h2 @ '')'',
       preconditions = {''AmbulanceEnRoute('' @ ambulance_id a1 @ '', '' @ accident_id acc3 @ '')'',
                        ''CTAvailable('' @ hospital_id h2 @ '')''},
       add_effects = {''PatientAt('' @ accident_id acc3 @ '', '' @ hospital_id h2 @ '')'',
                      ''AccidentServed('' @ accident_id acc3 @ '')'',
                      ''AmbulanceFree('' @ ambulance_id a1 @ '')''},
       del_effects = {''AccidentNotServed('' @ accident_id acc3 @ '')'',
                      ''AmbulanceEnRoute('' @ ambulance_id a1 @ '', '' @ accident_id acc3 @ '')'',
                      ''AmbulanceBusy('' @ ambulance_id a1 @ '')''}\<rparr>]"

definition goal_state_of :: "Hospital \<Rightarrow> Accident \<Rightarrow> Proposition set" where
  "goal_state_of h1 acc3 =
     {''AccidentServed('' @ accident_id acc3 @ '')'',
      ''PatientAt('' @ accident_id acc3 @ '', '' @ hospital_id h1 @ '')''}"

text \<open>
  The body of \<open>build_domain_for_acc3\<close> after its first line, as a function of the scenario
  that \<open>create_base_scenario()\<close> returned: the four lookups of lines 46-49 in their order,
  each able to raise, then the construction of lines 54-228.
\<close>

definition build_domain_in ::
  "Scenario \<Rightarrow> error + (Proposition set \<times> Action list \<times> Proposition set)" where
  "build_domain_in scenario =
     (case find_by_id (\<lambda>h. Some (hospital_id h)) (hospitals scenario) ''H1'' of
        Inl e \<Rightarrow> Inl e
      | Inr h1 \<Rightarrow>
     (case find_by_id (\<lambda>h. Some (hospital_id h)) (hospitals scenario) ''H2'' of
        Inl e \<Rightarrow> Inl e
      | Inr h2 \<Rightarrow>
     (case find_by_id (\<lambda>a. Some (ambulance_id a)) (ambulances scenario) ''A1'' of
        Inl e \<Rightarrow> Inl e
      | Inr a1 \<Rightarrow>
     (case find_by_id (\<lambda>a. Some (accident_id a)) (accidents scenario) ''ACC3'' of
        Inl e \<Rightarrow> Inl e
      | Inr acc3 \<Rightarrow>
          Inr (initial_state_of h1 h2 a1 acc3, actions_of h1 h2 a1 acc3, goal_state_of h1 acc3)))))"

definition build_domain_for_acc3 ::
  "error + (Proposition set \<times> Action list \<times> Proposition set)" where
  "build_domain_for_acc3 = build_domain_in create_base_scenario"

section \<open>The strict plan (graphplan.py, compute\_strict\_plan\_for\_acc3)\<close>

definition compute_strict_plan_for_acc3 :: "set_order \<Rightarrow> error + Action list" where
  "compute_strict_plan_for_acc3 iter =
     (case build_domain_for_acc3 of
        Inl e \<Rightarrow> Inl e
      | Inr (initial_state, actions, goals) \<Rightarrow>
     (case build_plan_graph initial_state actions goals 8 of
        Inl e \<Rightarrow> Inl e
      | Inr (pg, goal_layer_index) \<Rightarrow> extract_linear_plan iter pg goal_layer_index goals))"

section \<open>Partial-order plan builder (pop\_planner.py)\<close>

record POPAction =
  pop_id :: string
  pop_name :: string
  pop_preconditions :: "Proposition set"
  effects :: "Proposition set"

text \<open>A branch is the dictionary with the keys "condition", "actions" and "description".\<close>

record Branch =
  condition :: Proposition
  branch_actions :: "string list"
  branch_description :: string

text \<open>
  \<open>POPPlan.actions\<close> is a Python dictionary, which is walked in insertion order; it is an
  association list here, written with \<open>dict_set\<close>.
\<close>

record POPPlan =
  pop_actions :: "(string \<times> POPAction) list"
  orderings :: "(string \<times> string) list"
  causal_links :: "(string \<times> Proposition \<times> string) list"
  branches :: "Branch list"

fun dict_set :: "('k \<times> 'v) list \<Rightarrow> 'k \<Rightarrow> 'v \<Rightarrow> ('k \<times> 'v) list" where
  "dict_set [] k v = [(k, v)]"
| "dict_set ((k', v') # d) k v = (if k' = k then (k', v) # d else (k', v') # dict_set d k v)"

text \<open>\<open>s.startswith(prefix)\<close> and the substring test \<open>sub in s\<close> on strings.\<close>

fun startswith :: "string \<Rightarrow> string \<Rightarrow> bool" where
  "startswith s [] = True"
| "startswith [] (p # ps) = False"
| "startswith (c # cs) (p # ps) = (c = p \<and> startswith cs ps)"

fun str_contains :: "string \<Rightarrow> string \<Rightarrow> bool" where
  "str_contains sub [] = (sub = [])"
| "str_contains sub (c # cs) = (startswith (c # cs) sub \<or> str_contains sub cs)"

fun find_da :: "Action list \<Rightarrow> string \<Rightarrow> error + Action" where
  "find_da [] prefix = Inl (DomainActionNotFound prefix)"
| "find_da (da # domain_actions) prefix =
     (if startswith (name da) prefix then Inr da else find_da domain_actions prefix)"

definition wrap :: "Action \<Rightarrow> string \<Rightarrow> POPAction" where
  "wrap da id_suffix =
     \<lparr>pop_id = id_suffix, pop_name = name da, pop_preconditions = preconditions da,
      effects = add_effects da\<rparr>"

text \<open>
  One loop of lines 121-150: \<open>for p in consumer.preconditions: if cond(p):
  plan.causal_links.append((producer, p, consumer.id))\<close>.
\<close>

definition links_for ::
  "set_order \<Rightarrow> string \<Rightarrow> (Proposition \<Rightarrow> bool) \<Rightarrow> POPAction \<Rightarrow> (string \<times> Proposition \<times> string) list" where
  "links_for iter producer cond consumer =
     map (\<lambda>p. (producer, p, pop_id consumer)) (filter cond (iter (pop_preconditions consumer)))"

text \<open>Lines 43-56 and 82-167, once the seven domain actions have been found.\<close>

definition assemble_pop_plan ::
  "set_order \<Rightarrow> Proposition set \<Rightarrow> Proposition set \<Rightarrow> Action \<Rightarrow> Action \<Rightarrow> Action \<Rightarrow> Action \<Rightarrow>
   Action \<Rightarrow> Action \<Rightarrow> Action \<Rightarrow> POPPlan" where
  "assemble_pop_plan iter initial_state goals da_drone da_predeploy da_notify_h1 da_request_div
     da_start_transport da_deliver_h1 da_reroute_h2 =
     (let start = \<lparr>pop_id = ''Start'', pop_name = ''Start'', pop_preconditions = {},
                   effects = initial_state\<rparr>;
          finish = \<lparr>pop_id = ''Finish'', pop_name = ''Finish'', pop_preconditions = goals,
                    effects = {}\<rparr>;
          a_drone = wrap da_drone ''DroneRecon'';
          a_predeploy = wrap da_predeploy ''PredeployA1'';
          a_notify_h1 = wrap da_notify_h1 ''NotifyH1'';
          a_request_div = wrap da_request_div ''RequestDiversion'';
          a_start_transport = wrap da_start_transport ''StartTransport'';
          a_deliver_h1 = wrap da_deliver_h1 ''DeliverH1'';
          a_reroute_h2 = wrap da_reroute_h2 ''RerouteH2'';
          acts = fold (\<lambda>a d. dict_set d (pop_id a) a)
                   [a_drone, a_predeploy, a_notify_h1, a_request_div, a_start_transport,
                    a_deliver_h1, a_reroute_h2]
                   (dict_set (dict_set [] (pop_id start) start) (pop_id finish) finish)
      in \<lparr>pop_actions = acts,
          orderings =
            map (\<lambda>aid. (''Start'', aid)) (filter (\<lambda>aid. aid \<noteq> ''Start'') (map fst acts)) @
            [(pop_id a_drone, pop_id a_start_transport),
             (pop_id a_predeploy, pop_id a_start_transport),
             (pop_id a_request_div, pop_id a_start_transport),
             (pop_id a_notify_h1, pop_id a_deliver_h1),
             (pop_id a_start_transport, pop_id a_deliver_h1),
             (pop_id a_start_transport, pop_id a_reroute_h2),
             (pop_id a_deliver_h1, ''Finish''),
             (pop_id a_reroute_h2, ''Finish'')],
          causal_links =
            concat (map (links_for iter ''Start'' (\<lambda>p. p \<in> effects start))
                      [a_drone, a_predeploy, a_notify_h1, a_request_div]) @
            links_for iter (pop_id a_drone) (\<lambda>p. str_contains ''AccidentLocationConfirmed'' p)
              a_start_transport @
            links_for iter (pop_id a_predeploy)
              (\<lambda>p. str_contains ''AmbulanceAt'' p \<and> str_contains ''nayapalli_chowk'' p)
              a_start_transport @
            links_for iter (pop_id a_request_div) (\<lambda>p. ''TrafficDiverted(stadium_corridor)'' = p)
              a_start_transport @
            links_for iter (pop_id a_notify_h1) (\<lambda>p. str_contains ''HospitalNotified'' p)
              a_deliver_h1 @
            links_for iter (pop_id a_start_transport) (\<lambda>p. str_contains ''AmbulanceEnRoute'' p)
              a_deliver_h1 @
            links_for iter (pop_id a_start_transport) (\<lambda>p. str_contains ''AmbulanceEnRoute'' p)
              a_reroute_h2,
          branches =
            [\<lparr>condition = ''CTAvailable(H2)'', branch_actions = [pop_id a_reroute_h2],
              branch_description = ''If CT scanner at H2 becomes available while A1 is en route, reroute mid-way to H2 for faster imaging.''\<rparr>,
             \<lparr>condition = ''CTOffline(H2)'', branch_actions = [pop_id a_deliver_h1],
              branch_description = ''If H2 CT remains offline, continue with baseline plan and deliver the patient to H1 (trauma centre).''\<rparr>]\<rparr>)"

definition build_pop_plan_for_acc3 :: "set_order \<Rightarrow> error + POPPlan" where
  "build_pop_plan_for_acc3 iter =
     (case build_domain_for_acc3 of
        Inl e \<Rightarrow> Inl e
      | Inr (initial_state, domain_actions, goals) \<Rightarrow>
     (case find_da domain_actions ''TriggerDroneRecon'' of
        Inl e \<Rightarrow> Inl e
      | Inr da_drone \<Rightarrow>
     (case find_da domain_actions ''PreDeployAmbulanceNearHotspot'' of
        Inl e \<Rightarrow> Inl e
      | Inr da_predeploy \<Rightarrow>
     (case find_da domain_actions ''NotifyHospital'' of
        Inl e \<Rightarrow> Inl e
      | Inr da_notify_h1 \<Rightarrow>
     (case find_da domain_actions ''RequestTrafficDiversion'' of
        Inl e \<Rightarrow> Inl e
      | Inr da_request_div \<Rightarrow>
     (case find_da domain_actions ''StartTransportToAccident'' of
        Inl e \<Rightarrow> Inl e
      | Inr da_start_transport \<Rightarrow>
     (case find_da domain_actions ''DeliverPatientToH1'' of
        Inl e \<Rightarrow> Inl e
      | Inr da_deliver_h1 \<Rightarrow>
     (case find_da domain_actions ''RerouteMidJourneyToH2'' of
        Inl e \<Rightarrow> Inl e
      | Inr da_reroute_h2 \<Rightarrow>
          Inr (assemble_pop_plan iter initial_state goals da_drone da_predeploy da_notify_h1
                 da_request_div da_start_transport da_deliver_h1 da_reroute_h2)))))))))"

text \<open>The action registered under an id, and the ordering relation as a set of edges.\<close>

definition pop_action :: "POPPlan \<Rightarrow> string \<Rightarrow> POPAction option" where
  "pop_action plan aid = map_of (pop_actions plan) aid"

definition ordering_edges :: "POPPlan \<Rightarrow> (string \<times> string) set" where
  "ordering_edges plan = set (orderings plan)"

section \<open>The ground domain of the base scenario\<close>

text \<open>
  The propositions and actions that \<open>build_domain_for_acc3\<close> computes on the base scenario,
  with their strings written out (\<open>acc3_domain\<close> below proves that they are its result).
\<close>

definition acc3_initial_state :: "Proposition set" where
  "acc3_initial_state =
     {''AmbulanceFree(A1)'', ''AmbulanceAt(A1, hospital_h1)'', ''AccidentReported(ACC3)'',
      ''AccidentHighRisk(ACC3)'', ''AccidentNotServed(ACC3)'', ''Hospital(H1)'', ''Hospital(H2)'',
      ''TraumaCenter(H1)'', ''CTAvailable(H1)'', ''CTOffline(H2)'', ''RainyConditions'',
      ''StadiumTrafficLikely'', ''ControlRoomOperational''}"

definition acc3_goals :: "Proposition set" where
  "acc3_goals = {''AccidentServed(ACC3)'', ''PatientAt(ACC3, H1)''}"

definition act_drone :: Action where
  "act_drone =
     \<lparr>name = ''TriggerDroneRecon(ACC3)'',
      preconditions = {''ControlRoomOperational'', ''AccidentReported(ACC3)''},
      add_effects = {''DroneReconDone(ACC3)'', ''AccidentLocationConfirmed(ACC3)''},
      del_effects = {}\<rparr>"

definition act_diversion :: Action where
  "act_diversion =
     \<lparr>name = ''RequestTrafficDiversion(stadium_corridor)'',
      preconditions = {''ControlRoomOperational'', ''StadiumTrafficLikely''},
      add_effects = {''TrafficDiverted(stadium_corridor)''},
      del_effects = {}\<rparr>"

definition act_predeploy :: Action where
  "act_predeploy =
     \<lparr>name = ''PreDeployAmbulanceNearHotspot(A1, nayapalli_chowk)'',
      preconditions = {''AmbulanceFree(A1)'', ''AmbulanceAt(A1, hospital_h1)''},
      add_effects = {''AmbulanceAt(A1, nayapalli_chowk)'', ''AmbulancePredeployed(A1)''},
      del_effects = {''AmbulanceAt(A1, hospital_h1)''}\<rparr>"

definition act_notify :: Action where
  "act_notify =
     \<lparr>name = ''NotifyHospital(H1)'',
      preconditions = {''ControlRoomOperational'', ''AccidentHighRisk(ACC3)'', ''Hospital(H1)''},
      add_effects = {''HospitalNotified(H1)''},
      del_effects = {}\<rparr>"

definition act_start :: Action where
  "act_start =
     \<lparr>name = ''StartTransportToAccident(A1, ACC3)'',
      preconditions = {''AmbulanceFree(A1)'', ''AmbulanceAt(A1, nayapalli_chowk)'',
                       ''AccidentLocationConfirmed(ACC3)'', ''TrafficDiverted(stadium_corridor)''},
      add_effects = {''AmbulanceEnRoute(A1, ACC3)'', ''AmbulanceBusy(A1)''},
      del_effects = {''AmbulanceFree(A1)''}\<rparr>"

definition act_deliver :: Action where
  "act_deliver =
     \<lparr>name = ''DeliverPatientToH1(A1, ACC3, H1)'',
      preconditions = {''AmbulanceEnRoute(A1, ACC3)'', ''HospitalNotified(H1)''},
      add_effects = {''PatientAt(ACC3, H1)'', ''AccidentServed(ACC3)'', ''AmbulanceFree(A1)'',
                     ''AmbulanceAt(A1, hospital_h1)''},
      del_effects = {''AccidentNotServed(ACC3)'', ''AmbulanceEnRoute(A1, ACC3)'',
                     ''AmbulanceBusy(A1)''}\<rparr>"

definition act_reroute :: Action where
  "act_reroute =
     \<lparr>name = ''RerouteMidJourneyToH2(A1, ACC3, H2)'',
      preconditions = {''AmbulanceEnRoute(A1, ACC3)'', ''CTAvailable(H2)''},
      add_effects = {''PatientAt(ACC3, H2)'', ''AccidentServed(ACC3)'', ''AmbulanceFree(A1)''},
      del_effects = {''AccidentNotServed(ACC3)'', ''AmbulanceEnRoute(A1, ACC3)'',
                     ''AmbulanceBusy(A1)''}\<rparr>"

definition acc3_actions :: "Action list" where
  "acc3_actions =
     [act_drone, act_diversion, act_predeploy, act_notify, act_start, act_deliver, act_reroute]"

text \<open>The partial-order plan that is assembled from these actions.\<close>

definition acc3_pop_plan :: "set_order \<Rightarrow> POPPlan" where
  "acc3_pop_plan iter =
     assemble_pop_plan iter acc3_initial_state acc3_goals act_drone act_predeploy act_notify
       act_diversion act_start act_deliver act_reroute"

text \<open>A rank on the action ids that falls along every ordering edge of that plan.\<close>

definition pop_rank :: "string \<Rightarrow> nat" where
  "pop_rank x = (if x = ''Start'' then 4
               else if x = ''StartTransport'' then 2
               else if x = ''DeliverH1'' \<or> x = ''RerouteH2'' then 1
               else if x = ''Finish'' then 0 else 3)"

section \<open>A two-action example domain\<close>

definition toy_actions :: "Action list" where
  "toy_actions =
     [\<lparr>name = ''x'', preconditions = {''a''}, add_effects = {''b''}, del_effects = {}\<rparr>,
      \<lparr>name = ''y'', preconditions = {''b''}, add_effects = {''c''}, del_effects = {''a''}\<rparr>]"

section \<open>Properties of the planning-graph builder\<close>

declare layer.simps [simp del]

lemma add_all_effects_eq: "add_all_effects acts S = S \<union> \<Union> (add_effects ` set acts)"
  by (induction acts arbitrary: S) auto

lemma build_loop_Suc:
  "build_loop actions goals (Suc n) (int k) (graph_upto init actions k) =
     (if goals \<subseteq> layer init actions (Suc k) then (graph_upto init actions (Suc k), Some (int (Suc k)))
      else build_loop actions goals n (int (Suc k)) (graph_upto init actions (Suc k)))"
  by (simp add: graph_upto_def add_all_effects_eq expand_def applicable_def layer.simps Let_def
        add.commute)

lemma build_loop_exhausted:
  "(\<forall>j. k < j \<and> j \<le> k + n \<longrightarrow> \<not> goals \<subseteq> layer init actions j) \<Longrightarrow>
   build_loop actions goals n (int k) (graph_upto init actions k) = (graph_upto init actions (k + n), None)"
proof (induction n arbitrary: k)
  case 0
  then show ?case by simp
next
  case (Suc n)
  have nogoal: "\<not> goals \<subseteq> layer init actions (Suc k)"
    using Suc.prems by simp
  have rest: "\<forall>j. Suc k < j \<and> j \<le> Suc k + n \<longrightarrow> \<not> goals \<subseteq> layer init actions j"
    using Suc.prems by simp
  have "build_loop actions goals (Suc n) (int k) (graph_upto init actions k)
        = build_loop actions goals n (int (Suc k)) (graph_upto init actions (Suc k))"
    using nogoal by (simp only: build_loop_Suc if_False)
  also have "\<dots> = (graph_upto init actions (Suc k + n), None)"
    using Suc.IH [OF rest] .
  finally show ?case by simp
qed

lemma build_loop_found:
  "k < m \<Longrightarrow> m \<le> k + n \<Longrightarrow> goals \<subseteq> layer init actions m \<Longrightarrow>
   (\<forall>j. k < j \<and> j < m \<longrightarrow> \<not> goals \<subseteq> layer init actions j) \<Longrightarrow>
   build_loop actions goals n (int k) (graph_upto init actions k) = (graph_upto init actions m, Some (int m))"
proof (induction n arbitrary: k)
  case 0
  then show ?case by simp
next
  case (Suc n)
  show ?case
  proof (cases "m = Suc k")
    case True
    then have "goals \<subseteq> layer init actions (Suc k)"
      using Suc.prems by simp
    then have "build_loop actions goals (Suc n) (int k) (graph_upto init actions k)
          = (graph_upto init actions (Suc k), Some (int (Suc k)))"
      by (simp only: build_loop_Suc if_True)
    then show ?thesis
      using True by simp
  next
    case False
    then have lt: "Suc k < m" and le: "m \<le> Suc k + n"
      using Suc.prems by simp_all
    have nogoal: "\<not> goals \<subseteq> layer init actions (Suc k)"
      using Suc.prems(4) lt by simp
    have rest: "\<forall>j. Suc k < j \<and> j < m \<longrightarrow> \<not> goals \<subseteq> layer init actions j"
      using Suc.prems(4) by simp
    have "build_loop actions goals (Suc n) (int k) (graph_upto init actions k)
          = build_loop actions goals n (int (Suc k)) (graph_upto init actions (Suc k))"
      using nogoal by (simp only: build_loop_Suc if_False)
    also have "\<dots> = (graph_upto init actions m, Some (int m))"
      using Suc.IH [OF lt le Suc.prems(3) rest] .
    finally show ?thesis .
  qed
qed

lemma graph_upto_0:
  "graph_upto init actions 0 = \<lparr>proposition_layers = [init], action_layers = []\<rparr>"
  by (simp add: graph_upto_def layer.simps)

text \<open>What a call returns, in terms of the layers \<open>P1, P2, ...\<close>.\<close>

lemma build_plan_graph_fail:
  assumes "\<forall>j. 1 \<le> j \<and> j \<le> nat max_levels \<longrightarrow> \<not> goals \<subseteq> layer init actions j"
  shows "build_plan_graph init actions goals max_levels = Inl PlanNotFound"
    and "build_loop actions goals (nat max_levels) 0 \<lparr>proposition_layers = [init], action_layers = []\<rparr>
         = (graph_upto init actions (nat max_levels), None)"
proof -
  have "\<forall>j. 0 < j \<and> j \<le> 0 + nat max_levels \<longrightarrow> \<not> goals \<subseteq> layer init actions j"
    using assms by (simp add: Suc_le_eq)
  from build_loop_exhausted [OF this]
  show l: "build_loop actions goals (nat max_levels) 0 \<lparr>proposition_layers = [init], action_layers = []\<rparr>
         = (graph_upto init actions (nat max_levels), None)"
    by (simp add: graph_upto_0)
  show "build_plan_graph init actions goals max_levels = Inl PlanNotFound"
    by (simp add: build_plan_graph_def l)
qed

lemma build_plan_graph_ok:
  assumes "1 \<le> m" "m \<le> nat max_levels" "goals \<subseteq> layer init actions m"
    and "\<forall>j. 1 \<le> j \<and> j < m \<longrightarrow> \<not> goals \<subseteq> layer init actions j"
  shows "build_plan_graph init actions goals max_levels = Inr (graph_upto init actions m, int m)"
proof -
  have "build_loop actions goals (nat max_levels) (int 0) (graph_upto init actions 0)
        = (graph_upto init actions m, Some (int m))"
    using assms by (intro build_loop_found) (simp_all add: Suc_le_eq)
  then show ?thesis
    by (simp add: build_plan_graph_def graph_upto_0)
qed

lemma build_plan_graph_cases:
  "(build_plan_graph init actions goals max_levels = Inl PlanNotFound \<and>
      (\<forall>j. 1 \<le> j \<and> j \<le> nat max_levels \<longrightarrow> \<not> goals \<subseteq> layer init actions j))
   \<or> (\<exists>m. build_plan_graph init actions goals max_levels = Inr (graph_upto init actions m, int m) \<and>
          1 \<le> m \<and> m \<le> nat max_levels \<and> goals \<subseteq> layer init actions m \<and>
          (\<forall>j. 1 \<le> j \<and> j < m \<longrightarrow> \<not> goals \<subseteq> layer init actions j))"
proof (cases "\<exists>j. 1 \<le> j \<and> j \<le> nat max_levels \<and> goals \<subseteq> layer init actions j")
  case False
  then have "\<forall>j. 1 \<le> j \<and> j \<le> nat max_levels \<longrightarrow> \<not> goals \<subseteq> layer init actions j"
    by blast
  then show ?thesis
    using build_plan_graph_fail(1) by blast
next
  case True
  define Q where "Q j = (1 \<le> j \<and> j \<le> nat max_levels \<and> goals \<subseteq> layer init actions j)" for j
  define m where "m = (LEAST j. Q j)"
  have ex: "\<exists>j. Q j" using True by (simp add: Q_def)
  then have Qm: "Q m" unfolding m_def by (metis LeastI)
  have least: "\<And>j. Q j \<Longrightarrow> m \<le> j" unfolding m_def by (rule Least_le)
  have first: "\<forall>j. 1 \<le> j \<and> j < m \<longrightarrow> \<not> goals \<subseteq> layer init actions j"
  proof (intro allI impI notI)
    fix j assume j: "1 \<le> j \<and> j < m" and g: "goals \<subseteq> layer init actions j"
    have "Q j" using j g Qm by (simp add: Q_def)
    then show False using least j by fastforce
  qed
  have "build_plan_graph init actions goals max_levels = Inr (graph_upto init actions m, int m)"
    using Qm first by (intro build_plan_graph_ok) (simp_all add: Q_def)
  then show ?thesis
    using Qm first unfolding Q_def by blast
qed

lemma build_plan_graph_Inr:
  assumes "build_plan_graph init actions goals max_levels = Inr (pg, idx)"
  shows "\<exists>m. pg = graph_upto init actions m \<and> idx = int m \<and> 1 \<le> m \<and> m \<le> nat max_levels \<and>
             goals \<subseteq> layer init actions m \<and>
             (\<forall>j. 1 \<le> j \<and> j < m \<longrightarrow> \<not> goals \<subseteq> layer init actions j)"
  using build_plan_graph_cases [of init actions goals max_levels] assms by auto

lemma layer_mono: "layer init actions i \<subseteq> layer init actions (Suc i)"
  by (simp add: layer.simps expand_def)

lemma graph_upto_length:
  "length (proposition_layers (graph_upto init actions m)) = Suc m"
  "length (action_layers (graph_upto init actions m)) = m"
  by (simp_all add: graph_upto_def)

lemma graph_upto_nth:
  "i \<le> m \<Longrightarrow> proposition_layers (graph_upto init actions m) ! i = layer init actions i"
  "i < m \<Longrightarrow> action_layers (graph_upto init actions m) ! i = applicable actions (layer init actions i)"
  by (simp_all add: graph_upto_def nth_append del: upt_Suc)


lemma toy_layer1: "layer {''a''} toy_actions (Suc 0) = {''a'', ''b''}"
  by (auto simp: layer.simps expand_def applicable_def toy_actions_def)

lemma toy_layer2: "layer {''a''} toy_actions 2 = {''a'', ''b'', ''c''}"
  unfolding numeral_2_eq_2
  by (auto simp: layer.simps expand_def applicable_def toy_actions_def)

lemma toy_build: "build_plan_graph {''a''} toy_actions {''c''} 8 = Inr (graph_upto {''a''} toy_actions 2, 2)"
proof -
  have "\<forall>j. 1 \<le> j \<and> j < (2::nat) \<longrightarrow> \<not> {''c''} \<subseteq> layer {''a''} toy_actions j"
  proof (intro allI impI)
    fix j :: nat assume "1 \<le> j \<and> j < 2"
    then have "j = Suc 0" by simp
    then show "\<not> {''c''} \<subseteq> layer {''a''} toy_actions j" by (simp add: toy_layer1)
  qed
  then show ?thesis
    using build_plan_graph_ok [of 2 8 "{''c''}" "{''a''}" toy_actions] by (simp add: toy_layer2)
qed

text \<open>
  Claim C4. \<open>build_plan_graph\<close> is a total function (its loop is structural recursion on the
  number of levels that remain), so every call returns or raises. With \<open>P1, P2, ...\<close> the
  layers of the specification: when \<open>m\<close> is the smallest index in \<open>1..max_levels\<close> with
  \<open>Goals \<subseteq> P m\<close> the call returns the graph with layers \<open>P0..Pm\<close> and the index \<open>m\<close>; when no
  index in \<open>1..max_levels\<close> has \<open>Goals \<subseteq> P j\<close> the call raises \<open>PlanNotFound\<close>, and the loop
  is left after exactly \<open>max_levels\<close> expansion steps (its graph then has \<open>max_levels\<close> action
  layers). The call raises iff no such index exists, \<open>PlanNotFound\<close> is the only error, and
  every returned index is the smallest one.
\<close>

theorem build_plan_graph_first_goal_layer:
  "(\<forall>m. 1 \<le> m \<and> m \<le> nat max_levels \<and> goals \<subseteq> layer init actions m \<and>
        (\<forall>j. 1 \<le> j \<and> j < m \<longrightarrow> \<not> goals \<subseteq> layer init actions j) \<longrightarrow>
      build_plan_graph init actions goals max_levels = Inr (graph_upto init actions m, int m)) \<and>
   ((\<forall>j. 1 \<le> j \<and> j \<le> nat max_levels \<longrightarrow> \<not> goals \<subseteq> layer init actions j) \<longrightarrow>
      build_plan_graph init actions goals max_levels = Inl PlanNotFound \<and>
      build_loop actions goals (nat max_levels) 0 \<lparr>proposition_layers = [init], action_layers = []\<rparr>
        = (graph_upto init actions (nat max_levels), None) \<and>
      length (action_layers (graph_upto init actions (nat max_levels))) = nat max_levels) \<and>
   ((\<exists>e. build_plan_graph init actions goals max_levels = Inl e) \<longleftrightarrow>
      \<not> (\<exists>j. 1 \<le> j \<and> j \<le> nat max_levels \<and> goals \<subseteq> layer init actions j)) \<and>
   (\<forall>e. build_plan_graph init actions goals max_levels = Inl e \<longrightarrow> e = PlanNotFound) \<and>
   (\<forall>pg idx. build_plan_graph init actions goals max_levels = Inr (pg, idx) \<longrightarrow>
      1 \<le> idx \<and> idx \<le> max_levels \<and> pg = graph_upto init actions (nat idx) \<and>
      goals \<subseteq> layer init actions (nat idx) \<and>
      (\<forall>j. 1 \<le> j \<and> j < nat idx \<longrightarrow> \<not> goals \<subseteq> layer init actions j))"
proof (intro conjI allI impI)
  fix m
  assume "1 \<le> m \<and> m \<le> nat max_levels \<and> goals \<subseteq> layer init actions m \<and>
        (\<forall>j. 1 \<le> j \<and> j < m \<longrightarrow> \<not> goals \<subseteq> layer init actions j)"
  then show "build_plan_graph init actions goals max_levels = Inr (graph_upto init actions m, int m)"
    by (intro build_plan_graph_ok) simp_all
next
  assume a: "\<forall>j. 1 \<le> j \<and> j \<le> nat max_levels \<longrightarrow> \<not> goals \<subseteq> layer init actions j"
  show "build_plan_graph init actions goals max_levels = Inl PlanNotFound"
    using a by (rule build_plan_graph_fail(1))
  show "build_loop actions goals (nat max_levels) 0 \<lparr>proposition_layers = [init], action_layers = []\<rparr>
        = (graph_upto init actions (nat max_levels), None)"
    using a by (rule build_plan_graph_fail(2))
  show "length (action_layers (graph_upto init actions (nat max_levels))) = nat max_levels"
    by (simp add: graph_upto_length)
next
  show "(\<exists>e. build_plan_graph init actions goals max_levels = Inl e) \<longleftrightarrow>
      \<not> (\<exists>j. 1 \<le> j \<and> j \<le> nat max_levels \<and> goals \<subseteq> layer init actions j)"
    using build_plan_graph_cases [of init actions goals max_levels] by auto
next
  fix e assume "build_plan_graph init actions goals max_levels = Inl e"
  then show "e = PlanNotFound"
    using build_plan_graph_cases [of init actions goals max_levels] by auto
next
  fix pg idx
  assume r: "build_plan_graph init actions goals max_levels = Inr (pg, idx)"
  from build_plan_graph_Inr [OF r] obtain m where
    m: "pg = graph_upto init actions m" "idx = int m" "1 \<le> m" "m \<le> nat max_levels"
       "goals \<subseteq> layer init actions m"
       "\<forall>j. 1 \<le> j \<and> j < m \<longrightarrow> \<not> goals \<subseteq> layer init actions j"
    by blast
  show "1 \<le> idx" using m by simp
  show "idx \<le> max_levels" using m by linarith
  show "pg = graph_upto init actions (nat idx)" using m by simp
  show "goals \<subseteq> layer init actions (nat idx)" using m by simp
  fix j assume "1 \<le> j \<and> j < nat idx"
  then show "\<not> goals \<subseteq> layer init actions j" using m by simp
qed


theorem build_plan_graph_first_goal_layer_witness:
  "build_plan_graph {''a''} toy_actions {''c''} 8 = Inr (graph_upto {''a''} toy_actions 2, 2) \<and>
   build_plan_graph {''a''} toy_actions {''c''} 1 = Inl PlanNotFound \<and>
   build_loop toy_actions {''c''} 1 0 \<lparr>proposition_layers = [{''a''}], action_layers = []\<rparr>
     = (graph_upto {''a''} toy_actions 1, None)"
proof -
  have first: "\<forall>j. 1 \<le> j \<and> j < (2::nat) \<longrightarrow> \<not> {''c''} \<subseteq> layer {''a''} toy_actions j"
  proof (intro allI impI)
    fix j :: nat assume "1 \<le> j \<and> j < 2"
    then have "j = Suc 0" by simp
    then show "\<not> {''c''} \<subseteq> layer {''a''} toy_actions j" by (simp add: toy_layer1)
  qed
  have none: "\<forall>j. 1 \<le> j \<and> j \<le> nat 1 \<longrightarrow> \<not> {''c''} \<subseteq> layer {''a''} toy_actions j"
  proof (intro allI impI)
    fix j :: nat assume "1 \<le> j \<and> j \<le> nat 1"
    then have "j = Suc 0" by simp
    then show "\<not> {''c''} \<subseteq> layer {''a''} toy_actions j" by (simp add: toy_layer1)
  qed
  have pre: "1 \<le> (2::nat) \<and> 2 \<le> nat 8 \<and> {''c''} \<subseteq> layer {''a''} toy_actions 2 \<and>
        (\<forall>j. 1 \<le> j \<and> j < 2 \<longrightarrow> \<not> {''c''} \<subseteq> layer {''a''} toy_actions j)"
    using first by (simp add: toy_layer2)
  have a: "build_plan_graph {''a''} toy_actions {''c''} 8 = Inr (graph_upto {''a''} toy_actions 2, 2)"
    using build_plan_graph_first_goal_layer [of 8 "{''c''}" "{''a''}" toy_actions,
        THEN conjunct1, THEN spec, THEN mp, OF pre]
    by simp
  note f = build_plan_graph_first_goal_layer [of 1 "{''c''}" "{''a''}" toy_actions,
        THEN conjunct2, THEN conjunct1, THEN mp, OF none]
  have b: "build_plan_graph {''a''} toy_actions {''c''} 1 = Inl PlanNotFound"
    using f [THEN conjunct1] .
  have c: "build_loop toy_actions {''c''} 1 0 \<lparr>proposition_layers = [{''a''}], action_layers = []\<rparr>
     = (graph_upto {''a''} toy_actions 1, None)"
    using f [THEN conjunct2, THEN conjunct1] by simp
  show ?thesis using a b c by (intro conjI)
qed

text \<open>
  Claim C5. In the graph of a successful call with index \<open>idx\<close> there are \<open>idx + 1\<close>
  proposition layers and \<open>idx\<close> action layers, the first proposition layer is the initial
  state, and for every level \<open>i < idx\<close>: the action layer \<open>Ai\<close> is the input action list
  filtered by "preconditions \<open>\<subseteq> Pi\<close>" (so its members are exactly the input actions applicable
  in \<open>Pi\<close>), \<open>P(i+1)\<close> is \<open>Pi\<close> united with the add-effects of the actions of \<open>Ai\<close>, and
  \<open>Pi \<subseteq> P(i+1)\<close>.
\<close>

theorem plan_graph_layers:
  assumes "build_plan_graph init actions goals max_levels = Inr (pg, idx)"
  shows "length (proposition_layers pg) = nat idx + 1 \<and> length (action_layers pg) = nat idx \<and>
         proposition_layers pg ! 0 = init \<and>
         (\<forall>i. i < nat idx \<longrightarrow>
            action_layers pg ! i = filter (\<lambda>a. preconditions a \<subseteq> proposition_layers pg ! i) actions \<and>
            set (action_layers pg ! i) = {a \<in> set actions. preconditions a \<subseteq> proposition_layers pg ! i} \<and>
            proposition_layers pg ! (i + 1) =
              proposition_layers pg ! i \<union> \<Union> (add_effects ` set (action_layers pg ! i)) \<and>
            proposition_layers pg ! i \<subseteq> proposition_layers pg ! (i + 1))"
proof -
  from build_plan_graph_Inr [OF assms] obtain m where
    pg: "pg = graph_upto init actions m" and idx: "idx = int m" by blast
  have step: "action_layers pg ! i = filter (\<lambda>a. preconditions a \<subseteq> proposition_layers pg ! i) actions \<and>
            set (action_layers pg ! i) = {a \<in> set actions. preconditions a \<subseteq> proposition_layers pg ! i} \<and>
            proposition_layers pg ! (i + 1) =
              proposition_layers pg ! i \<union> \<Union> (add_effects ` set (action_layers pg ! i)) \<and>
            proposition_layers pg ! i \<subseteq> proposition_layers pg ! (i + 1)" if "i < m" for i
  proof -
    have a: "action_layers pg ! i = applicable actions (layer init actions i)"
      and p: "proposition_layers pg ! i = layer init actions i"
      and p': "proposition_layers pg ! (i + 1) = layer init actions (Suc i)"
      using that by (simp_all add: pg graph_upto_nth)
    show ?thesis
      unfolding a p p' by (auto simp: applicable_def layer.simps expand_def)
  qed
  show ?thesis
    using step by (simp add: pg idx graph_upto_length graph_upto_nth layer.simps)
qed

theorem plan_graph_layers_witness:
  "build_plan_graph {''a''} toy_actions {''c''} 8 = Inr (graph_upto {''a''} toy_actions 2, 2) \<and>
   length (proposition_layers (graph_upto {''a''} toy_actions 2)) = 3 \<and>
   length (action_layers (graph_upto {''a''} toy_actions 2)) = 2 \<and>
   proposition_layers (graph_upto {''a''} toy_actions 2) ! 0 = {''a''} \<and>
   proposition_layers (graph_upto {''a''} toy_actions 2) ! 0
     \<subseteq> proposition_layers (graph_upto {''a''} toy_actions 2) ! 1"
proof -
  note w = plan_graph_layers [OF toy_build]
  have l1: "length (proposition_layers (graph_upto {''a''} toy_actions 2)) = 3"
    using w [THEN conjunct1] by simp
  have l2: "length (action_layers (graph_upto {''a''} toy_actions 2)) = 2"
    using w [THEN conjunct2, THEN conjunct1] by simp
  have l3: "proposition_layers (graph_upto {''a''} toy_actions 2) ! 0 = {''a''}"
    using w [THEN conjunct2, THEN conjunct2, THEN conjunct1] .
  have "(0::nat) < nat 2" by simp
  from w [THEN conjunct2, THEN conjunct2, THEN conjunct2, THEN spec, THEN mp, OF this]
  have "proposition_layers (graph_upto {''a''} toy_actions 2) ! 0
     \<subseteq> proposition_layers (graph_upto {''a''} toy_actions 2) ! (0 + 1)"
    by (elim conjE)
  then have l4: "proposition_layers (graph_upto {''a''} toy_actions 2) ! 0
     \<subseteq> proposition_layers (graph_upto {''a''} toy_actions 2) ! 1"
    by simp
  show ?thesis
    using l1 l2 l3 l4 toy_build by (intro conjI)
qed

text \<open>
  Claim C10. The initial layer \<open>P0\<close> is never tested against the goals: every returned index
  is at least 1; when the goals are already contained in the initial state (the empty goal set
  for one) and \<open>max_levels\<close> is at least 1, the call still performs one expansion step and
  returns index 1 with a graph of two proposition layers and one action layer; and with
  \<open>max_levels = 0\<close> (or less) the call raises \<open>PlanNotFound\<close> whatever the goals are.
\<close>

theorem build_plan_graph_never_tests_P0:
  "(\<forall>pg idx. build_plan_graph init actions goals max_levels = Inr (pg, idx) \<longrightarrow> 1 \<le> idx) \<and>
   (goals \<subseteq> init \<and> 1 \<le> max_levels \<longrightarrow>
      build_plan_graph init actions goals max_levels = Inr (graph_upto init actions 1, 1) \<and>
      length (proposition_layers (graph_upto init actions 1)) = 2 \<and>
      length (action_layers (graph_upto init actions 1)) = 1) \<and>
   (max_levels \<le> 0 \<longrightarrow> build_plan_graph init actions goals max_levels = Inl PlanNotFound)"
proof (intro conjI allI impI)
  fix pg idx
  assume "build_plan_graph init actions goals max_levels = Inr (pg, idx)"
  from build_plan_graph_Inr [OF this] show "1 \<le> idx" by auto
next
  assume a: "goals \<subseteq> init \<and> 1 \<le> max_levels"
  have "goals \<subseteq> layer init actions 1"
    using a layer_mono [of init actions 0] by (auto simp: layer.simps)
  then show "build_plan_graph init actions goals max_levels = Inr (graph_upto init actions 1, 1)"
    using a build_plan_graph_ok [of 1 max_levels goals init actions] by (simp add: Suc_le_eq)
next
  assume "max_levels \<le> 0"
  then show "build_plan_graph init actions goals max_levels = Inl PlanNotFound"
    by (intro build_plan_graph_fail(1)) simp
qed (simp_all add: graph_upto_length)

theorem build_plan_graph_never_tests_P0_witness:
  "build_plan_graph {''p''} [] {} 1 = Inr (graph_upto {''p''} [] 1, 1) \<and>
   build_plan_graph {''p''} [] {''p''} 1 = Inr (graph_upto {''p''} [] 1, 1) \<and>
   build_plan_graph {''p''} [] {''p''} 0 = Inl PlanNotFound"
proof -
  have a: "build_plan_graph {''p''} [] {} 1 = Inr (graph_upto {''p''} [] 1, 1)"
    using build_plan_graph_never_tests_P0 [of "{''p''}" "[]" "{}" 1, THEN conjunct2, THEN conjunct1]
    by simp
  have b: "build_plan_graph {''p''} [] {''p''} 1 = Inr (graph_upto {''p''} [] 1, 1)"
    using build_plan_graph_never_tests_P0 [of "{''p''}" "[]" "{''p''}" 1, THEN conjunct2, THEN conjunct1]
    by simp
  have c: "build_plan_graph {''p''} [] {''p''} 0 = Inl PlanNotFound"
    using build_plan_graph_never_tests_P0 [of "{''p''}" "[]" "{''p''}" 0, THEN conjunct2, THEN conjunct2]
    by simp
  show ?thesis using a b c by (intro conjI)
qed

lemma acc3_domain:
  "build_domain_for_acc3 = Inr (acc3_initial_state, acc3_actions, acc3_goals)"
  by (simp add: build_domain_for_acc3_def build_domain_in_def create_base_scenario_def
      initial_state_of_def actions_of_def goal_state_of_def hotspot_node_def
      acc3_initial_state_def acc3_actions_def acc3_goals_def act_drone_def act_diversion_def
      act_predeploy_def act_notify_def act_start_def act_deliver_def act_reroute_def)

lemma find_by_id_find:
  "find_by_id get_id objects obj_id =
     (case List.find (\<lambda>ob. get_id ob = Some obj_id) objects of
        Some ob \<Rightarrow> Inr ob | None \<Rightarrow> Inl (NotFound obj_id))"
  by (induction objects) auto

lemma find_by_id_first:
  "(\<exists>ob. find_by_id get_id objects obj_id = Inr ob) \<longleftrightarrow> (\<exists>x \<in> set objects. get_id x = Some obj_id)"
  by (induction objects) auto

lemma find_by_id_Inr:
  "find_by_id get_id objects obj_id = Inr ob \<longleftrightarrow>
     (\<exists>before after. objects = before @ ob # after \<and> get_id ob = Some obj_id \<and>
        (\<forall>x \<in> set before. get_id x \<noteq> Some obj_id))"
proof (induction objects)
  case Nil
  then show ?case by simp
next
  case (Cons a objects)
  show ?case
  proof (cases "get_id a = Some obj_id")
    case True
    have "(\<exists>before after. a # objects = before @ ob # after \<and> get_id ob = Some obj_id \<and>
        (\<forall>x \<in> set before. get_id x \<noteq> Some obj_id)) \<longleftrightarrow> a = ob"
    proof
      assume "\<exists>before after. a # objects = before @ ob # after \<and> get_id ob = Some obj_id \<and>
        (\<forall>x \<in> set before. get_id x \<noteq> Some obj_id)"
      then obtain before after where e: "a # objects = before @ ob # after"
        and n: "\<forall>x \<in> set before. get_id x \<noteq> Some obj_id" by blast
      show "a = ob"
      proof (cases before)
        case Nil
        then show ?thesis using e by simp
      next
        case (Cons b bs)
        then have "a = b" using e by simp
        then show ?thesis using n Cons True by simp
      qed
    next
      assume "a = ob"
      then have "a # objects = [] @ ob # objects \<and> get_id ob = Some obj_id \<and>
        (\<forall>x \<in> set []. get_id x \<noteq> Some obj_id)" using True by simp
      then show "\<exists>before after. a # objects = before @ ob # after \<and> get_id ob = Some obj_id \<and>
        (\<forall>x \<in> set before. get_id x \<noteq> Some obj_id)" by blast
    qed
    then show ?thesis using True by simp
  next
    case False
    have "(\<exists>before after. a # objects = before @ ob # after \<and> get_id ob = Some obj_id \<and>
        (\<forall>x \<in> set before. get_id x \<noteq> Some obj_id)) \<longleftrightarrow>
       (\<exists>before after. objects = before @ ob # after \<and> get_id ob = Some obj_id \<and>
        (\<forall>x \<in> set before. get_id x \<noteq> Some obj_id))" (is "?L \<longleftrightarrow> ?R")
    proof
      assume ?L
      then obtain before after where e: "a # objects = before @ ob # after"
        and i: "get_id ob = Some obj_id"
        and n: "\<forall>x \<in> set before. get_id x \<noteq> Some obj_id" by blast
      show ?R
      proof (cases before)
        case Nil
        then show ?thesis using e i False by simp
      next
        case (Cons b bs)
        then have "objects = bs @ ob # after \<and> (\<forall>x \<in> set bs. get_id x \<noteq> Some obj_id)"
          using e n by simp
        then show ?thesis using i by blast
      qed
    next
      assume ?R
      then obtain before after where e: "objects = before @ ob # after"
        and i: "get_id ob = Some obj_id"
        and n: "\<forall>x \<in> set before. get_id x \<noteq> Some obj_id" by blast
      have "a # objects = (a # before) @ ob # after \<and> get_id ob = Some obj_id \<and>
        (\<forall>x \<in> set (a # before). get_id x \<noteq> Some obj_id)"
        using e i n False by simp
      then show ?L by blast
    qed
    then show ?thesis using False Cons.IH by simp
  qed
qed

lemma find_by_id_Inl:
  "find_by_id get_id objects obj_id = Inl e \<longleftrightarrow>
     (e = NotFound obj_id \<and> (\<forall>x \<in> set objects. get_id x \<noteq> Some obj_id))"
  by (induction objects) auto

text \<open>
  Claim C8. \<open>_find_by_id\<close> returns an object exactly when that object is the first one of
  the collection whose \<open>id\<close> attribute equals the requested id, and raises \<open>NotFound\<close> when
  no object has that id. \<open>build_domain_for_acc3\<close> looks up H1, H2, A1 and ACC3 in this order
  before it builds anything: the first lookup that fails makes the whole call raise
  \<open>NotFound\<close> for that id, and a call that returns a domain has found all four objects and
  returns the initial state, the actions and the goals built from them.
\<close>

theorem find_by_id_and_domain_lookups:
  "(find_by_id get_id objects obj_id = Inr ob \<longleftrightarrow>
      (\<exists>before after. objects = before @ ob # after \<and> get_id ob = Some obj_id \<and>
         (\<forall>x \<in> set before. get_id x \<noteq> Some obj_id))) \<and>
   ((\<forall>x \<in> set objects. get_id x \<noteq> Some obj_id) \<longrightarrow>
      find_by_id get_id objects obj_id = Inl (NotFound obj_id)) \<and>
   ((\<exists>x \<in> set objects. get_id x = Some obj_id) \<longrightarrow>
      (\<exists>found. find_by_id get_id objects obj_id = Inr found)) \<and>
   (''H1'' \<notin> hospital_id ` set (hospitals scenario) \<longrightarrow>
      build_domain_in scenario = Inl (NotFound ''H1'')) \<and>
   (''H1'' \<in> hospital_id ` set (hospitals scenario) \<and>
    ''H2'' \<notin> hospital_id ` set (hospitals scenario) \<longrightarrow>
      build_domain_in scenario = Inl (NotFound ''H2'')) \<and>
   (''H1'' \<in> hospital_id ` set (hospitals scenario) \<and>
    ''H2'' \<in> hospital_id ` set (hospitals scenario) \<and>
    ''A1'' \<notin> ambulance_id ` set (ambulances scenario) \<longrightarrow>
      build_domain_in scenario = Inl (NotFound ''A1'')) \<and>
   (''H1'' \<in> hospital_id ` set (hospitals scenario) \<and>
    ''H2'' \<in> hospital_id ` set (hospitals scenario) \<and>
    ''A1'' \<in> ambulance_id ` set (ambulances scenario) \<and>
    ''ACC3'' \<notin> accident_id ` set (accidents scenario) \<longrightarrow>
      build_domain_in scenario = Inl (NotFound ''ACC3'')) \<and>
   (\<forall>d. build_domain_in scenario = Inr d \<longrightarrow>
      (\<exists>h1 h2 a1 acc3.
         find_by_id (\<lambda>h. Some (hospital_id h)) (hospitals scenario) ''H1'' = Inr h1 \<and>
         find_by_id (\<lambda>h. Some (hospital_id h)) (hospitals scenario) ''H2'' = Inr h2 \<and>
         find_by_id (\<lambda>a. Some (ambulance_id a)) (ambulances scenario) ''A1'' = Inr a1 \<and>
         find_by_id (\<lambda>a. Some (accident_id a)) (accidents scenario) ''ACC3'' = Inr acc3 \<and>
         d = (initial_state_of h1 h2 a1 acc3, actions_of h1 h2 a1 acc3, goal_state_of h1 acc3)))"
proof (intro conjI)
  show "find_by_id get_id objects obj_id = Inr ob \<longleftrightarrow>
      (\<exists>before after. objects = before @ ob # after \<and> get_id ob = Some obj_id \<and>
         (\<forall>x \<in> set before. get_id x \<noteq> Some obj_id))"
    by (rule find_by_id_Inr)
  show "(\<forall>x \<in> set objects. get_id x \<noteq> Some obj_id) \<longrightarrow>
      find_by_id get_id objects obj_id = Inl (NotFound obj_id)"
    by (simp add: find_by_id_Inl)
  show "(\<exists>x \<in> set objects. get_id x = Some obj_id) \<longrightarrow>
      (\<exists>found. find_by_id get_id objects obj_id = Inr found)"
    by (simp add: find_by_id_first)
next
  have none: "find_by_id (\<lambda>x. Some (f x)) xs k = Inl (NotFound k)" if "k \<notin> f ` set xs"
    for f :: "'b \<Rightarrow> string" and xs k
    using that by (subst find_by_id_Inl) auto
  have some: "\<exists>found. find_by_id (\<lambda>x. Some (f x)) xs k = Inr found" if "k \<in> f ` set xs"
    for f :: "'b \<Rightarrow> string" and xs k
    using that by (subst find_by_id_first) auto
  show "''H1'' \<notin> hospital_id ` set (hospitals scenario) \<longrightarrow>
      build_domain_in scenario = Inl (NotFound ''H1'')"
    by (auto simp: build_domain_in_def none)
  show "''H1'' \<in> hospital_id ` set (hospitals scenario) \<and>
    ''H2'' \<notin> hospital_id ` set (hospitals scenario) \<longrightarrow>
      build_domain_in scenario = Inl (NotFound ''H2'')"
  proof
    assume a: "''H1'' \<in> hospital_id ` set (hospitals scenario) \<and>
      ''H2'' \<notin> hospital_id ` set (hospitals scenario)"
    from a some [of "''H1''" hospital_id "hospitals scenario"] obtain h1 where
      "find_by_id (\<lambda>x. Some (hospital_id x)) (hospitals scenario) ''H1'' = Inr h1" by blast
    then show "build_domain_in scenario = Inl (NotFound ''H2'')"
      using a by (simp add: build_domain_in_def none)
  qed
  show "''H1'' \<in> hospital_id ` set (hospitals scenario) \<and>
    ''H2'' \<in> hospital_id ` set (hospitals scenario) \<and>
    ''A1'' \<notin> ambulance_id ` set (ambulances scenario) \<longrightarrow>
      build_domain_in scenario = Inl (NotFound ''A1'')"
  proof
    assume a: "''H1'' \<in> hospital_id ` set (hospitals scenario) \<and>
      ''H2'' \<in> hospital_id ` set (hospitals scenario) \<and>
      ''A1'' \<notin> ambulance_id ` set (ambulances scenario)"
    from a some [of "''H1''" hospital_id "hospitals scenario"] obtain h1 where
      h1: "find_by_id (\<lambda>x. Some (hospital_id x)) (hospitals scenario) ''H1'' = Inr h1" by blast
    from a some [of "''H2''" hospital_id "hospitals scenario"] obtain h2 where
      h2: "find_by_id (\<lambda>x. Some (hospital_id x)) (hospitals scenario) ''H2'' = Inr h2" by blast
    show "build_domain_in scenario = Inl (NotFound ''A1'')"
      using a h1 h2 by (simp add: build_domain_in_def none)
  qed
  show "''H1'' \<in> hospital_id ` set (hospitals scenario) \<and>
    ''H2'' \<in> hospital_id ` set (hospitals scenario) \<and>
    ''A1'' \<in> ambulance_id ` set (ambulances scenario) \<and>
    ''ACC3'' \<notin> accident_id ` set (accidents scenario) \<longrightarrow>
      build_domain_in scenario = Inl (NotFound ''ACC3'')"
  proof
    assume a: "''H1'' \<in> hospital_id ` set (hospitals scenario) \<and>
      ''H2'' \<in> hospital_id ` set (hospitals scenario) \<and>
      ''A1'' \<in> ambulance_id ` set (ambulances scenario) \<and>
      ''ACC3'' \<notin> accident_id ` set (accidents scenario)"
    from a some [of "''H1''" hospital_id "hospitals scenario"] obtain h1 where
      h1: "find_by_id (\<lambda>x. Some (hospital_id x)) (hospitals scenario) ''H1'' = Inr h1" by blast
    from a some [of "''H2''" hospital_id "hospitals scenario"] obtain h2 where
      h2: "find_by_id (\<lambda>x. Some (hospital_id x)) (hospitals scenario) ''H2'' = Inr h2" by blast
    from a some [of "''A1''" ambulance_id "ambulances scenario"] obtain a1 where
      a1: "find_by_id (\<lambda>x. Some (ambulance_id x)) (ambulances scenario) ''A1'' = Inr a1" by blast
    show "build_domain_in scenario = Inl (NotFound ''ACC3'')"
      using a h1 h2 a1 by (simp add: build_domain_in_def none)
  qed
  show "\<forall>d. build_domain_in scenario = Inr d \<longrightarrow>
      (\<exists>h1 h2 a1 acc3.
         find_by_id (\<lambda>h. Some (hospital_id h)) (hospitals scenario) ''H1'' = Inr h1 \<and>
         find_by_id (\<lambda>h. Some (hospital_id h)) (hospitals scenario) ''H2'' = Inr h2 \<and>
         find_by_id (\<lambda>a. Some (ambulance_id a)) (ambulances scenario) ''A1'' = Inr a1 \<and>
         find_by_id (\<lambda>a. Some (accident_id a)) (accidents scenario) ''ACC3'' = Inr acc3 \<and>
         d = (initial_state_of h1 h2 a1 acc3, actions_of h1 h2 a1 acc3, goal_state_of h1 acc3))"
    by (auto simp: build_domain_in_def split: sum.splits)
qed

theorem find_by_id_and_domain_lookups_witness:
  "find_by_id (\<lambda>a. Some (ambulance_id a)) (ambulances create_base_scenario) ''A2''
     = Inr \<lparr>ambulance_id = ''A2'', current_node = ''hospital_h2'', is_available = True\<rparr> \<and>
   find_by_id (\<lambda>a. Some (ambulance_id a)) (ambulances create_base_scenario) ''A3''
     = Inl (NotFound ''A3'') \<and>
   build_domain_in (create_base_scenario\<lparr>accidents := []\<rparr>) = Inl (NotFound ''ACC3'') \<and>
   build_domain_in (create_base_scenario\<lparr>hospitals := tl (hospitals create_base_scenario)\<rparr>)
     = Inl (NotFound ''H1'')"
proof -
  let ?a1 = "\<lparr>ambulance_id = ''A1'', current_node = ''hospital_h1'', is_available = True\<rparr>"
  let ?a2 = "\<lparr>ambulance_id = ''A2'', current_node = ''hospital_h2'', is_available = True\<rparr>"
  have "\<exists>before after. ambulances create_base_scenario = before @ ?a2 # after \<and>
      Some (ambulance_id ?a2) = Some ''A2'' \<and>
      (\<forall>x \<in> set before. Some (ambulance_id x) \<noteq> Some ''A2'')"
  proof (intro exI conjI)
    show "ambulances create_base_scenario = [?a1] @ ?a2 # []"
      by (simp add: create_base_scenario_def)
  qed simp_all
  note ex = this
  have a: "find_by_id (\<lambda>a. Some (ambulance_id a)) (ambulances create_base_scenario) ''A2''
     = Inr ?a2"
    by (rule find_by_id_and_domain_lookups
      [of "\<lambda>a. Some (ambulance_id a)" "ambulances create_base_scenario" "''A2''" ?a2,
       THEN conjunct1, THEN iffD2, OF ex])
  have "\<forall>x \<in> set (ambulances create_base_scenario). Some (ambulance_id x) \<noteq> Some ''A3''"
    by (simp add: create_base_scenario_def)
  note nb = this
  have b: "find_by_id (\<lambda>a. Some (ambulance_id a)) (ambulances create_base_scenario) ''A3''
     = Inl (NotFound ''A3'')"
    by (rule find_by_id_and_domain_lookups
      [of "\<lambda>a. Some (ambulance_id a)" "ambulances create_base_scenario" "''A3''",
       THEN conjunct2, THEN conjunct1, THEN mp, OF nb])
  let ?s = "create_base_scenario\<lparr>accidents := []\<rparr>"
  have "''H1'' \<in> hospital_id ` set (hospitals ?s) \<and>
    ''H2'' \<in> hospital_id ` set (hospitals ?s) \<and>
    ''A1'' \<in> ambulance_id ` set (ambulances ?s) \<and>
    ''ACC3'' \<notin> accident_id ` set (accidents ?s)"
    by (simp add: create_base_scenario_def)
  note nc = this
  have c: "build_domain_in ?s = Inl (NotFound ''ACC3'')"
    by (rule find_by_id_and_domain_lookups [of Some "[]" "[]" "[]" ?s,
       THEN conjunct2, THEN conjunct2, THEN conjunct2, THEN conjunct2, THEN conjunct2,
       THEN conjunct2, THEN conjunct1, THEN mp, OF nc])
  let ?t = "create_base_scenario\<lparr>hospitals := tl (hospitals create_base_scenario)\<rparr>"
  have "''H1'' \<notin> hospital_id ` set (hospitals ?t)"
    by (simp add: create_base_scenario_def)
  note nd = this
  have d: "build_domain_in ?t = Inl (NotFound ''H1'')"
    by (rule find_by_id_and_domain_lookups [of Some "[]" "[]" "[]" ?t,
       THEN conjunct2, THEN conjunct2, THEN conjunct2, THEN conjunct1, THEN mp, OF nd])
  show ?thesis using a b c d by (intro conjI)
qed

lemma acc3_find_da:
  "find_da acc3_actions ''TriggerDroneRecon'' = Inr act_drone"
  "find_da acc3_actions ''PreDeployAmbulanceNearHotspot'' = Inr act_predeploy"
  "find_da acc3_actions ''NotifyHospital'' = Inr act_notify"
  "find_da acc3_actions ''RequestTrafficDiversion'' = Inr act_diversion"
  "find_da acc3_actions ''StartTransportToAccident'' = Inr act_start"
  "find_da acc3_actions ''DeliverPatientToH1'' = Inr act_deliver"
  "find_da acc3_actions ''RerouteMidJourneyToH2'' = Inr act_reroute"
  by (simp_all add: acc3_actions_def act_drone_def act_diversion_def act_predeploy_def
      act_notify_def act_start_def act_deliver_def act_reroute_def)

lemma acc3_pop_build: "build_pop_plan_for_acc3 iter = Inr (acc3_pop_plan iter)"
  unfolding build_pop_plan_for_acc3_def acc3_pop_plan_def
  by (simp only: acc3_domain acc3_find_da sum.case prod.case)

lemma acc3_pop_actions:
  "pop_actions (acc3_pop_plan iter) =
     [(''Start'', \<lparr>pop_id = ''Start'', pop_name = ''Start'', pop_preconditions = {},
                   effects = acc3_initial_state\<rparr>),
      (''Finish'', \<lparr>pop_id = ''Finish'', pop_name = ''Finish'', pop_preconditions = acc3_goals,
                    effects = {}\<rparr>),
      (''DroneRecon'', wrap act_drone ''DroneRecon''),
      (''PredeployA1'', wrap act_predeploy ''PredeployA1''),
      (''NotifyH1'', wrap act_notify ''NotifyH1''),
      (''RequestDiversion'', wrap act_diversion ''RequestDiversion''),
      (''StartTransport'', wrap act_start ''StartTransport''),
      (''DeliverH1'', wrap act_deliver ''DeliverH1''),
      (''RerouteH2'', wrap act_reroute ''RerouteH2'')]"
  unfolding acc3_pop_plan_def assemble_pop_plan_def Let_def
  apply (simp only: POPPlan.simps)
  apply (simp add: wrap_def)
  done

lemma acc3_orderings:
  "orderings (acc3_pop_plan iter) =
     [(''Start'', ''Finish''), (''Start'', ''DroneRecon''), (''Start'', ''PredeployA1''),
      (''Start'', ''NotifyH1''), (''Start'', ''RequestDiversion''), (''Start'', ''StartTransport''),
      (''Start'', ''DeliverH1''), (''Start'', ''RerouteH2''),
      (''DroneRecon'', ''StartTransport''), (''PredeployA1'', ''StartTransport''),
      (''RequestDiversion'', ''StartTransport''), (''NotifyH1'', ''DeliverH1''),
      (''StartTransport'', ''DeliverH1''), (''StartTransport'', ''RerouteH2''),
      (''DeliverH1'', ''Finish''), (''RerouteH2'', ''Finish'')]"
  unfolding acc3_pop_plan_def assemble_pop_plan_def Let_def
  apply (simp only: POPPlan.simps)
  apply (simp add: wrap_def)
  done

lemma set_links_for:
  assumes "valid_iter iter" "finite (pop_preconditions consumer)"
  shows "set (links_for iter producer cond consumer) =
           (\<lambda>p. (producer, p, pop_id consumer)) ` {p \<in> pop_preconditions consumer. cond p}"
proof -
  have "set (iter (pop_preconditions consumer)) = pop_preconditions consumer"
    using assms by (simp add: valid_iter_def)
  then show ?thesis
    by (auto simp: links_for_def)
qed

lemma Collect_mem_insert:
  "{p \<in> insert a A. P p} = (if P a then insert a {p \<in> A. P p} else {p \<in> A. P p})"
  by auto

lemma acc3_causal_links_expr:
  "causal_links (acc3_pop_plan iter) =
     links_for iter ''Start'' (\<lambda>p. p \<in> acc3_initial_state) (wrap act_drone ''DroneRecon'') @
     links_for iter ''Start'' (\<lambda>p. p \<in> acc3_initial_state) (wrap act_predeploy ''PredeployA1'') @
     links_for iter ''Start'' (\<lambda>p. p \<in> acc3_initial_state) (wrap act_notify ''NotifyH1'') @
     links_for iter ''Start'' (\<lambda>p. p \<in> acc3_initial_state) (wrap act_diversion ''RequestDiversion'') @
     links_for iter ''DroneRecon'' (\<lambda>p. str_contains ''AccidentLocationConfirmed'' p)
       (wrap act_start ''StartTransport'') @
     links_for iter ''PredeployA1''
       (\<lambda>p. str_contains ''AmbulanceAt'' p \<and> str_contains ''nayapalli_chowk'' p)
       (wrap act_start ''StartTransport'') @
     links_for iter ''RequestDiversion'' (\<lambda>p. ''TrafficDiverted(stadium_corridor)'' = p)
       (wrap act_start ''StartTransport'') @
     links_for iter ''NotifyH1'' (\<lambda>p. str_contains ''HospitalNotified'' p)
       (wrap act_deliver ''DeliverH1'') @
     links_for iter ''StartTransport'' (\<lambda>p. str_contains ''AmbulanceEnRoute'' p)
       (wrap act_deliver ''DeliverH1'') @
     links_for iter ''StartTransport'' (\<lambda>p. str_contains ''AmbulanceEnRoute'' p)
       (wrap act_reroute ''RerouteH2'')"
  unfolding acc3_pop_plan_def assemble_pop_plan_def Let_def
  apply (simp only: POPPlan.simps)
  apply (simp add: wrap_def)
  done

lemma wrap_simps:
  "pop_id (wrap da i) = i" "pop_name (wrap da i) = name da"
  "pop_preconditions (wrap da i) = preconditions da" "effects (wrap da i) = add_effects da"
  by (simp_all add: wrap_def)

lemma acc3_preconditions:
  "preconditions act_drone = {''ControlRoomOperational'', ''AccidentReported(ACC3)''}"
  "preconditions act_diversion = {''ControlRoomOperational'', ''StadiumTrafficLikely''}"
  "preconditions act_predeploy = {''AmbulanceFree(A1)'', ''AmbulanceAt(A1, hospital_h1)''}"
  "preconditions act_notify =
     {''ControlRoomOperational'', ''AccidentHighRisk(ACC3)'', ''Hospital(H1)''}"
  "preconditions act_start =
     {''AmbulanceFree(A1)'', ''AmbulanceAt(A1, nayapalli_chowk)'',
      ''AccidentLocationConfirmed(ACC3)'', ''TrafficDiverted(stadium_corridor)''}"
  "preconditions act_deliver = {''AmbulanceEnRoute(A1, ACC3)'', ''HospitalNotified(H1)''}"
  "preconditions act_reroute = {''AmbulanceEnRoute(A1, ACC3)'', ''CTAvailable(H2)''}"
  by (simp_all add: act_drone_def act_diversion_def act_predeploy_def act_notify_def
      act_start_def act_deliver_def act_reroute_def)

lemma acc3_add_effects:
  "add_effects act_drone = {''DroneReconDone(ACC3)'', ''AccidentLocationConfirmed(ACC3)''}"
  "add_effects act_diversion = {''TrafficDiverted(stadium_corridor)''}"
  "add_effects act_predeploy = {''AmbulanceAt(A1, nayapalli_chowk)'', ''AmbulancePredeployed(A1)''}"
  "add_effects act_notify = {''HospitalNotified(H1)''}"
  "add_effects act_start = {''AmbulanceEnRoute(A1, ACC3)'', ''AmbulanceBusy(A1)''}"
  "add_effects act_deliver =
     {''PatientAt(ACC3, H1)'', ''AccidentServed(ACC3)'', ''AmbulanceFree(A1)'',
      ''AmbulanceAt(A1, hospital_h1)''}"
  "add_effects act_reroute =
     {''PatientAt(ACC3, H2)'', ''AccidentServed(ACC3)'', ''AmbulanceFree(A1)''}"
  by (simp_all add: act_drone_def act_diversion_def act_predeploy_def act_notify_def
      act_start_def act_deliver_def act_reroute_def)

lemma acc3_names:
  "name act_drone = ''TriggerDroneRecon(ACC3)''"
  "name act_diversion = ''RequestTrafficDiversion(stadium_corridor)''"
  "name act_predeploy = ''PreDeployAmbulanceNearHotspot(A1, nayapalli_chowk)''"
  "name act_notify = ''NotifyHospital(H1)''"
  "name act_start = ''StartTransportToAccident(A1, ACC3)''"
  "name act_deliver = ''DeliverPatientToH1(A1, ACC3, H1)''"
  "name act_reroute = ''RerouteMidJourneyToH2(A1, ACC3, H2)''"
  by (simp_all add: act_drone_def act_diversion_def act_predeploy_def act_notify_def
      act_start_def act_deliver_def act_reroute_def)

lemma set_links_for_list:
  assumes "valid_iter iter" "pop_preconditions consumer = set xs"
  shows "set (links_for iter producer cond consumer) =
           set (map (\<lambda>p. (producer, p, pop_id consumer)) (filter cond xs))"
proof -
  have "set (iter (pop_preconditions consumer)) = set xs"
    using assms by (simp add: valid_iter_def)
  then show ?thesis
    by (auto simp: links_for_def)
qed

lemma acc3_links1:
  assumes "valid_iter iter"
  shows "set (links_for iter ''Start'' (\<lambda>p. p \<in> acc3_initial_state) (wrap act_drone ''DroneRecon'')) =
     {(''Start'', ''ControlRoomOperational'', ''DroneRecon''),
      (''Start'', ''AccidentReported(ACC3)'', ''DroneRecon'')}"
proof -
  have "pop_preconditions (wrap act_drone ''DroneRecon'') = set [''ControlRoomOperational'', ''AccidentReported(ACC3)'']"
    by (simp add: wrap_simps acc3_preconditions)
  from set_links_for_list [OF assms this]
  show ?thesis
    by (simp add: wrap_simps acc3_initial_state_def)
qed

lemma acc3_links2:
  assumes "valid_iter iter"
  shows "set (links_for iter ''Start'' (\<lambda>p. p \<in> acc3_initial_state) (wrap act_predeploy ''PredeployA1'')) =
     {(''Start'', ''AmbulanceFree(A1)'', ''PredeployA1''),
      (''Start'', ''AmbulanceAt(A1, hospital_h1)'', ''PredeployA1'')}"
proof -
  have "pop_preconditions (wrap act_predeploy ''PredeployA1'') = set [''AmbulanceFree(A1)'', ''AmbulanceAt(A1, hospital_h1)'']"
    by (simp add: wrap_simps acc3_preconditions)
  from set_links_for_list [OF assms this]
  show ?thesis
    by (simp add: wrap_simps acc3_initial_state_def)
qed

lemma acc3_links3:
  assumes "valid_iter iter"
  shows "set (links_for iter ''Start'' (\<lambda>p. p \<in> acc3_initial_state) (wrap act_notify ''NotifyH1'')) =
     {(''Start'', ''ControlRoomOperational'', ''NotifyH1''),
      (''Start'', ''AccidentHighRisk(ACC3)'', ''NotifyH1''),
      (''Start'', ''Hospital(H1)'', ''NotifyH1'')}"
proof -
  have "pop_preconditions (wrap act_notify ''NotifyH1'') = set [''ControlRoomOperational'', ''AccidentHighRisk(ACC3)'', ''Hospital(H1)'']"
    by (simp add: wrap_simps acc3_preconditions)
  from set_links_for_list [OF assms this]
  show ?thesis
    by (simp add: wrap_simps acc3_initial_state_def)
qed

lemma acc3_links4:
  assumes "valid_iter iter"
  shows "set (links_for iter ''Start'' (\<lambda>p. p \<in> acc3_initial_state) (wrap act_diversion ''RequestDiversion'')) =
     {(''Start'', ''ControlRoomOperational'', ''RequestDiversion''),
      (''Start'', ''StadiumTrafficLikely'', ''RequestDiversion'')}"
proof -
  have "pop_preconditions (wrap act_diversion ''RequestDiversion'') = set [''ControlRoomOperational'', ''StadiumTrafficLikely'']"
    by (simp add: wrap_simps acc3_preconditions)
  from set_links_for_list [OF assms this]
  show ?thesis
    by (simp add: wrap_simps acc3_initial_state_def)
qed

lemma acc3_links5:
  assumes "valid_iter iter"
  shows "set (links_for iter ''DroneRecon'' (\<lambda>p. str_contains ''AccidentLocationConfirmed'' p) (wrap act_start ''StartTransport'')) =
     {(''DroneRecon'', ''AccidentLocationConfirmed(ACC3)'', ''StartTransport'')}"
proof -
  have "pop_preconditions (wrap act_start ''StartTransport'') = set [''AmbulanceFree(A1)'', ''AmbulanceAt(A1, nayapalli_chowk)'', ''AccidentLocationConfirmed(ACC3)'', ''TrafficDiverted(stadium_corridor)'']"
    by (simp add: wrap_simps acc3_preconditions)
  from set_links_for_list [OF assms this]
  show ?thesis
    by (simp add: wrap_simps)
qed

lemma acc3_links6:
  assumes "valid_iter iter"
  shows "set (links_for iter ''PredeployA1'' (\<lambda>p. str_contains ''AmbulanceAt'' p \<and> str_contains ''nayapalli_chowk'' p) (wrap act_start ''StartTransport'')) =
     {(''PredeployA1'', ''AmbulanceAt(A1, nayapalli_chowk)'', ''StartTransport'')}"
proof -
  have "pop_preconditions (wrap act_start ''StartTransport'') = set [''AmbulanceFree(A1)'', ''AmbulanceAt(A1, nayapalli_chowk)'', ''AccidentLocationConfirmed(ACC3)'', ''TrafficDiverted(stadium_corridor)'']"
    by (simp add: wrap_simps acc3_preconditions)
  from set_links_for_list [OF assms this]
  show ?thesis
    by (simp add: wrap_simps)
qed

lemma acc3_links7:
  assumes "valid_iter iter"
  shows "set (links_for iter ''RequestDiversion'' (\<lambda>p. ''TrafficDiverted(stadium_corridor)'' = p) (wrap act_start ''StartTransport'')) =
     {(''RequestDiversion'', ''TrafficDiverted(stadium_corridor)'', ''StartTransport'')}"
proof -
  have "pop_preconditions (wrap act_start ''StartTransport'') = set [''AmbulanceFree(A1)'', ''AmbulanceAt(A1, nayapalli_chowk)'', ''AccidentLocationConfirmed(ACC3)'', ''TrafficDiverted(stadium_corridor)'']"
    by (simp add: wrap_simps acc3_preconditions)
  from set_links_for_list [OF assms this]
  show ?thesis
    by (simp add: wrap_simps)
qed

lemma acc3_links8:
  assumes "valid_iter iter"
  shows "set (links_for iter ''NotifyH1'' (\<lambda>p. str_contains ''HospitalNotified'' p) (wrap act_deliver ''DeliverH1'')) =
     {(''NotifyH1'', ''HospitalNotified(H1)'', ''DeliverH1'')}"
proof -
  have "pop_preconditions (wrap act_deliver ''DeliverH1'') = set [''AmbulanceEnRoute(A1, ACC3)'', ''HospitalNotified(H1)'']"
    by (simp add: wrap_simps acc3_preconditions)
  from set_links_for_list [OF assms this]
  show ?thesis
    by (simp add: wrap_simps)
qed

lemma acc3_links9:
  assumes "valid_iter iter"
  shows "set (links_for iter ''StartTransport'' (\<lambda>p. str_contains ''AmbulanceEnRoute'' p) (wrap act_deliver ''DeliverH1'')) =
     {(''StartTransport'', ''AmbulanceEnRoute(A1, ACC3)'', ''DeliverH1'')}"
proof -
  have "pop_preconditions (wrap act_deliver ''DeliverH1'') = set [''AmbulanceEnRoute(A1, ACC3)'', ''HospitalNotified(H1)'']"
    by (simp add: wrap_simps acc3_preconditions)
  from set_links_for_list [OF assms this]
  show ?thesis
    by (simp add: wrap_simps)
qed

lemma acc3_links10:
  assumes "valid_iter iter"
  shows "set (links_for iter ''StartTransport'' (\<lambda>p. str_contains ''AmbulanceEnRoute'' p) (wrap act_reroute ''RerouteH2'')) =
     {(''StartTransport'', ''AmbulanceEnRoute(A1, ACC3)'', ''RerouteH2'')}"
proof -
  have "pop_preconditions (wrap act_reroute ''RerouteH2'') = set [''AmbulanceEnRoute(A1, ACC3)'', ''CTAvailable(H2)'']"
    by (simp add: wrap_simps acc3_preconditions)
  from set_links_for_list [OF assms this]
  show ?thesis
    by (simp add: wrap_simps)
qed

lemma acc3_causal_links:
  assumes "valid_iter iter"
  shows "set (causal_links (acc3_pop_plan iter)) =
     {(''StartTransport'', ''AmbulanceEnRoute(A1, ACC3)'', ''RerouteH2''),
      (''StartTransport'', ''AmbulanceEnRoute(A1, ACC3)'', ''DeliverH1''),
      (''NotifyH1'', ''HospitalNotified(H1)'', ''DeliverH1''),
      (''RequestDiversion'', ''TrafficDiverted(stadium_corridor)'', ''StartTransport''),
      (''PredeployA1'', ''AmbulanceAt(A1, nayapalli_chowk)'', ''StartTransport''),
      (''DroneRecon'', ''AccidentLocationConfirmed(ACC3)'', ''StartTransport''),
      (''Start'', ''ControlRoomOperational'', ''RequestDiversion''),
      (''Start'', ''StadiumTrafficLikely'', ''RequestDiversion''),
      (''Start'', ''ControlRoomOperational'', ''NotifyH1''),
      (''Start'', ''AccidentHighRisk(ACC3)'', ''NotifyH1''),
      (''Start'', ''Hospital(H1)'', ''NotifyH1''),
      (''Start'', ''AmbulanceFree(A1)'', ''PredeployA1''),
      (''Start'', ''AmbulanceAt(A1, hospital_h1)'', ''PredeployA1''),
      (''Start'', ''ControlRoomOperational'', ''DroneRecon''),
      (''Start'', ''AccidentReported(ACC3)'', ''DroneRecon'')}"
  unfolding acc3_causal_links_expr set_append
    acc3_links1 [OF assms] acc3_links2 [OF assms] acc3_links3 [OF assms] acc3_links4 [OF assms]
    acc3_links5 [OF assms] acc3_links6 [OF assms] acc3_links7 [OF assms] acc3_links8 [OF assms]
    acc3_links9 [OF assms] acc3_links10 [OF assms]
  by (simp only: Un_insert_left Un_insert_right Un_empty_left Un_empty_right)

lemma acc3_pop_action:
  "pop_action (acc3_pop_plan iter) ''Start'' =
     Some \<lparr>pop_id = ''Start'', pop_name = ''Start'', pop_preconditions = {},
           effects = acc3_initial_state\<rparr>"
  "pop_action (acc3_pop_plan iter) ''Finish'' =
     Some \<lparr>pop_id = ''Finish'', pop_name = ''Finish'', pop_preconditions = acc3_goals,
           effects = {}\<rparr>"
  "pop_action (acc3_pop_plan iter) ''DroneRecon'' = Some (wrap act_drone ''DroneRecon'')"
  "pop_action (acc3_pop_plan iter) ''PredeployA1'' = Some (wrap act_predeploy ''PredeployA1'')"
  "pop_action (acc3_pop_plan iter) ''NotifyH1'' = Some (wrap act_notify ''NotifyH1'')"
  "pop_action (acc3_pop_plan iter) ''RequestDiversion'' =
     Some (wrap act_diversion ''RequestDiversion'')"
  "pop_action (acc3_pop_plan iter) ''StartTransport'' = Some (wrap act_start ''StartTransport'')"
  "pop_action (acc3_pop_plan iter) ''DeliverH1'' = Some (wrap act_deliver ''DeliverH1'')"
  "pop_action (acc3_pop_plan iter) ''RerouteH2'' = Some (wrap act_reroute ''RerouteH2'')"
  unfolding pop_action_def acc3_pop_actions by simp_all

lemma acc3_no_in_start: "(x, ''Start'') \<notin> ordering_edges (acc3_pop_plan iter)"
  unfolding ordering_edges_def acc3_orderings by simp

lemma acc3_no_out_finish: "(''Finish'', x) \<notin> ordering_edges (acc3_pop_plan iter)"
  unfolding ordering_edges_def acc3_orderings by simp

lemma pop_rank_simps:
  "pop_rank ''Start'' = 4" "pop_rank ''StartTransport'' = 2" "pop_rank ''DeliverH1'' = 1"
  "pop_rank ''RerouteH2'' = 1" "pop_rank ''Finish'' = 0" "pop_rank ''DroneRecon'' = 3"
  "pop_rank ''PredeployA1'' = 3" "pop_rank ''NotifyH1'' = 3" "pop_rank ''RequestDiversion'' = 3"
  by (simp_all add: pop_rank_def)

lemma acc3_orderings_acyclic: "acyclic (ordering_edges (acc3_pop_plan iter))"
proof -
  have "pop_rank b < pop_rank a" if "(a, b) \<in> ordering_edges (acc3_pop_plan iter)" for a b
  proof -
    have "(a, b) \<in> set (orderings (acc3_pop_plan iter))"
      using that by (simp add: ordering_edges_def)
    then show ?thesis
      unfolding acc3_orderings
      apply (simp only: set_simps insert_iff empty_iff prod.inject)
      apply (elim disjE conjE)
      apply (simp_all add: pop_rank_simps)
      done
  qed
  then show ?thesis
    by (rule acyclicI_order)
qed

lemma valid_sorted: "valid_iter sorted_list_of_set"
  by (simp add: valid_iter_def)

text \<open>
  Claim C7. The plan that \<open>build_pop_plan_for_acc3\<close> returns (it returns one for every
  iteration order) has an acyclic ordering relation; no ordering edge ends in \<open>Start\<close>, whose
  precondition set is empty; no ordering edge leaves \<open>Finish\<close>, whose precondition set is the
  goal set of the domain.
\<close>

theorem pop_orderings_acyclic:
  "\<exists>plan init acts goals start finish.
     build_pop_plan_for_acc3 iter = Inr plan \<and>
     build_domain_for_acc3 = Inr (init, acts, goals) \<and>
     acyclic (ordering_edges plan) \<and>
     (\<forall>x. (x, ''Start'') \<notin> ordering_edges plan) \<and>
     pop_action plan ''Start'' = Some start \<and> pop_preconditions start = {} \<and>
     (\<forall>x. (''Finish'', x) \<notin> ordering_edges plan) \<and>
     pop_action plan ''Finish'' = Some finish \<and> pop_preconditions finish = goals"
proof (intro exI conjI)
  show "build_pop_plan_for_acc3 iter = Inr (acc3_pop_plan iter)"
    by (rule acc3_pop_build)
  show "build_domain_for_acc3 = Inr (acc3_initial_state, acc3_actions, acc3_goals)"
    by (rule acc3_domain)
  show "acyclic (ordering_edges (acc3_pop_plan iter))"
    by (rule acc3_orderings_acyclic)
  show "\<forall>x. (x, ''Start'') \<notin> ordering_edges (acc3_pop_plan iter)"
    by (simp add: acc3_no_in_start)
  show "\<forall>x. (''Finish'', x) \<notin> ordering_edges (acc3_pop_plan iter)"
    by (simp add: acc3_no_out_finish)
  show "pop_action (acc3_pop_plan iter) ''Start'' =
     Some \<lparr>pop_id = ''Start'', pop_name = ''Start'', pop_preconditions = {},
           effects = acc3_initial_state\<rparr>"
    by (rule acc3_pop_action)
  show "pop_action (acc3_pop_plan iter) ''Finish'' =
     Some \<lparr>pop_id = ''Finish'', pop_name = ''Finish'', pop_preconditions = acc3_goals,
           effects = {}\<rparr>"
    by (rule acc3_pop_action)
qed simp_all

theorem pop_orderings_acyclic_witness:
  "\<exists>plan init acts goals start finish.
     build_pop_plan_for_acc3 sorted_list_of_set = Inr plan \<and>
     build_domain_for_acc3 = Inr (init, acts, goals) \<and>
     acyclic (ordering_edges plan) \<and>
     (\<forall>x. (x, ''Start'') \<notin> ordering_edges plan) \<and>
     pop_action plan ''Start'' = Some start \<and> pop_preconditions start = {} \<and>
     (\<forall>x. (''Finish'', x) \<notin> ordering_edges plan) \<and>
     pop_action plan ''Finish'' = Some finish \<and> pop_preconditions finish = goals"
  by (rule pop_orderings_acyclic)

end
